theory Spec2Isabelle
  imports Main "HOL-Library.Char_ord" "HOL-Library.List_Lexorder"
begin

unbundle bit_operations_syntax

section \<open>Python values\<close>

text \<open>
  The services keep their state in JSON documents and pass Python dictionaries around.
  A JSON value is a \<open>jval\<close>; Python's \<open>None\<close> is \<open>JNull\<close>. A dictionary is an
  association list in insertion order, as Python keeps it. Strings are byte strings: a
  Python \<open>str\<close> is represented by the bytes UTF-8 gives each of its code points, a
  surrogate code point included (three bytes, \<open>ED\<close>, then \<open>A0\<close> to \<open>BF\<close>, then one
  more). Concatenation, equality, ordering and substring search on these bytes agree with
  Python's on the code points. \<open>.encode()\<close> returns the bytes as they are, and raises
  when a surrogate is among them.
\<close>

datatype jval =
    JNull
  | JBool bool
  | JInt int
  | JStr string
  | JList "jval list"
  | JObj "(string \<times> jval) list"

type_synonym dict = "(string \<times> jval) list"

text \<open>Exceptions, each with the text \<open>str(e)\<close> gives.\<close>

datatype pyerr =
    KeyError string
  | AttributeError string
  | TypeError string
  | UnicodeEncodeError string
  | Exception string

definition err_str :: "pyerr \<Rightarrow> string" where
  "err_str e = (case e of
       KeyError k \<Rightarrow> [CHR 0x27] @ k @ [CHR 0x27]
     | AttributeError m \<Rightarrow> m
     | TypeError m \<Rightarrow> m
     | UnicodeEncodeError m \<Rightarrow> m
     | Exception m \<Rightarrow> m)"

text \<open>\<open>d.get(k)\<close>, \<open>d.get(k, default)\<close> and \<open>d[k]\<close>.\<close>

definition py_get :: "dict \<Rightarrow> string \<Rightarrow> jval" where
  "py_get d k = (case map_of d k of None \<Rightarrow> JNull | Some v \<Rightarrow> v)"

definition py_get_default :: "dict \<Rightarrow> string \<Rightarrow> jval \<Rightarrow> jval" where
  "py_get_default d k dflt = (case map_of d k of None \<Rightarrow> dflt | Some v \<Rightarrow> v)"

definition py_index :: "dict \<Rightarrow> string \<Rightarrow> pyerr + jval" where
  "py_index d k = (case map_of d k of None \<Rightarrow> Inl (KeyError k) | Some v \<Rightarrow> Inr v)"

text \<open>\<open>d[k] = v\<close>: an existing key keeps its place, a new key goes to the end.\<close>

fun dict_set :: "string \<Rightarrow> jval \<Rightarrow> dict \<Rightarrow> dict" where
  "dict_set k v [] = [(k, v)]"
| "dict_set k v (p # d) = (if fst p = k then (k, v) # d else p # dict_set k v d)"

text \<open>\<open>{**base, **extra}\<close>: the items of \<open>extra\<close> are stored into \<open>base\<close> in order.\<close>

definition dict_merge :: "dict \<Rightarrow> dict \<Rightarrow> dict" where
  "dict_merge base extra = foldl (\<lambda>d p. dict_set (fst p) (snd p) d) base extra"

text \<open>Truth value of a Python object in \<open>if x\<close>, \<open>not x\<close>, \<open>x and y\<close>, \<open>x or y\<close>.\<close>

fun truthy :: "jval \<Rightarrow> bool" where
  "truthy JNull = False"
| "truthy (JBool b) = b"
| "truthy (JInt i) = (i \<noteq> 0)"
| "truthy (JStr s) = (s \<noteq> [])"
| "truthy (JList l) = (l \<noteq> [])"
| "truthy (JObj d) = (d \<noteq> [])"

definition opt_str :: "string option \<Rightarrow> jval" where
  "opt_str x = (case x of None \<Rightarrow> JNull | Some s \<Rightarrow> JStr s)"

text \<open>\<open>str(n)\<close> for an integer.\<close>

definition digit_char :: "int \<Rightarrow> char" where
  "digit_char n = ''0123456789'' ! nat (n mod 10)"

function str_of_nat :: "int \<Rightarrow> string" where
  "str_of_nat n = (if n < 10 then [digit_char n] else str_of_nat (n div 10) @ [digit_char n])"
  by pat_completeness auto
termination
  by (relation "measure nat") auto

declare str_of_nat.simps [simp del]

definition str_of_int :: "int \<Rightarrow> string" where
  "str_of_int i = (if i < 0 then ''-'' @ str_of_nat (- i) else str_of_nat i)"

definition quoted :: "string \<Rightarrow> string" where
  "quoted x = [CHR 0x27] @ x @ [CHR 0x27]"

section \<open>SHA-256 (\<open>hashlib.sha256(...).hexdigest()\<close>)\<close>

text \<open>
  The hash of FIPS 180-4. A 32-bit word is an \<open>int\<close> below \<open>2^32\<close>; addition wraps by
  \<open>mod 2^32\<close>, written out.
\<close>

type_synonym w32 = int

definition add32 :: "w32 \<Rightarrow> w32 \<Rightarrow> w32" where
  "add32 a b = (a + b) mod 4294967296"

definition rotr :: "nat \<Rightarrow> w32 \<Rightarrow> w32" where
  "rotr n w = drop_bit n w OR (push_bit (32 - n) w mod 4294967296)"

definition Ch :: "w32 \<Rightarrow> w32 \<Rightarrow> w32 \<Rightarrow> w32" where
  "Ch x y z = (x AND y) XOR ((4294967295 - x) AND z)"

definition Maj :: "w32 \<Rightarrow> w32 \<Rightarrow> w32 \<Rightarrow> w32" where
  "Maj x y z = (x AND y) XOR (x AND z) XOR (y AND z)"

definition bsig0 :: "w32 \<Rightarrow> w32" where
  "bsig0 x = rotr 2 x XOR rotr 13 x XOR rotr 22 x"

definition bsig1 :: "w32 \<Rightarrow> w32" where
  "bsig1 x = rotr 6 x XOR rotr 11 x XOR rotr 25 x"

definition ssig0 :: "w32 \<Rightarrow> w32" where
  "ssig0 x = rotr 7 x XOR rotr 18 x XOR drop_bit 3 x"

definition ssig1 :: "w32 \<Rightarrow> w32" where
  "ssig1 x = rotr 17 x XOR rotr 19 x XOR drop_bit 10 x"

text \<open>The round constants and the initial hash value of FIPS 180-4, in decimal.\<close>

definition sha_K :: "w32 list" where
  "sha_K = [
  1116352408, 1899447441, 3049323471, 3921009573, 961987163, 1508970993, 2453635748, 2870763221,
  3624381080, 310598401, 607225278, 1426881987, 1925078388, 2162078206, 2614888103, 3248222580,
  3835390401, 4022224774, 264347078, 604807628, 770255983, 1249150122, 1555081692, 1996064986,
  2554220882, 2821834349, 2952996808, 3210313671, 3336571891, 3584528711, 113926993, 338241895,
  666307205, 773529912, 1294757372, 1396182291, 1695183700, 1986661051, 2177026350, 2456956037,
  2730485921, 2820302411, 3259730800, 3345764771, 3516065817, 3600352804, 4094571909, 275423344,
  430227734, 506948616, 659060556, 883997877, 958139571, 1322822218, 1537002063, 1747873779,
  1955562222, 2024104815, 2227730452, 2361852424, 2428436474, 2756734187, 3204031479, 3329325298]"

definition sha_H0 :: "w32 list" where
  "sha_H0 = [1779033703, 3144134277, 1013904242, 2773480762,
             1359893119, 2600822924, 528734635, 1541459225]"

text \<open>The \<open>n\<close> low bytes of a number, most significant first.\<close>

fun be_bytes :: "nat \<Rightarrow> int \<Rightarrow> int list" where
  "be_bytes 0 v = []"
| "be_bytes (Suc n) v = be_bytes n (v div 256) @ [v mod 256]"

definition sha_pad :: "int list \<Rightarrow> int list" where
  "sha_pad m = m @ [128] @ replicate ((55 + 64 - length m mod 64) mod 64) 0
                 @ be_bytes 8 (8 * int (length m))"

fun be_words :: "int list \<Rightarrow> w32 list" where
  "be_words (a # b # c # d # r) = (((a * 256 + b) * 256 + c) * 256 + d) # be_words r"
| "be_words _ = []"

fun chunks :: "nat \<Rightarrow> 'a list \<Rightarrow> 'a list list" where
  "chunks 0 xs = []"
| "chunks (Suc k) xs = take 16 xs # chunks k (drop 16 xs)"

fun schedule :: "nat \<Rightarrow> w32 list \<Rightarrow> w32 list" where
  "schedule 0 ws = ws"
| "schedule (Suc n) ws =
     schedule n (ws @ [add32 (add32 (add32 (ssig1 (ws ! (length ws - 2))) (ws ! (length ws - 7)))
                                    (ssig0 (ws ! (length ws - 15)))) (ws ! (length ws - 16))])"

fun sha_round :: "w32 list \<Rightarrow> w32 \<times> w32 \<Rightarrow> w32 list" where
  "sha_round [a, b, c, d, e, f, g, h] (k, w) =
     (let t1 = add32 (add32 (add32 (add32 h (bsig1 e)) (Ch e f g)) k) w;
          t2 = add32 (bsig0 a) (Maj a b c)
      in [add32 t1 t2, a, b, c, add32 d t1, e, f, g])"
| "sha_round s _ = s"

definition compress :: "w32 list \<Rightarrow> w32 list \<Rightarrow> w32 list" where
  "compress hs blk = map2 add32 hs (foldl sha_round hs (zip sha_K (schedule 48 blk)))"

definition sha256_words :: "int list \<Rightarrow> w32 list" where
  "sha256_words m =
     (let ws = be_words (sha_pad m)
      in foldl compress sha_H0 (chunks (length ws div 16) ws))"

definition hex_digit :: "int \<Rightarrow> char" where
  "hex_digit n = ''0123456789abcdef'' ! nat (n mod 16)"

definition hex_byte :: "int \<Rightarrow> string" where
  "hex_byte b = [hex_digit (b div 16), hex_digit b]"

definition sha256_hexdigest :: "string \<Rightarrow> string" where
  "sha256_hexdigest m =
     concat (map (\<lambda>w. concat (map hex_byte (be_bytes 4 w))) (sha256_words (map of_char m)))"

section \<open>Encoding text\<close>

text \<open>An encoded surrogate starts here: \<open>ED\<close> followed by a byte from \<open>A0\<close> to \<open>BF\<close>.\<close>

definition sur_head :: "string \<Rightarrow> bool" where
  "sur_head x = (case x of
       a # b # r \<Rightarrow> a = CHR 0xED \<and> CHR 0xA0 \<le> b \<and> b \<le> CHR 0xBF
     | _ \<Rightarrow> False)"

fun has_surrogate :: "string \<Rightarrow> bool" where
  "has_surrogate [] = False"
| "has_surrogate (c # r) = (sur_head (c # r) \<or> has_surrogate r)"

text \<open>
  The text of the \<open>UnicodeEncodeError\<close> the strict UTF-8 codec raises: it names the first
  run of surrogates by the positions of its code points, and a run of one by the
  character as well.
\<close>

definition is_continuation :: "char \<Rightarrow> bool" where
  "is_continuation c = (CHR 0x80 \<le> c \<and> c \<le> CHR 0xBF)"

fun surrogate_index :: "string \<Rightarrow> int \<Rightarrow> int" where
  "surrogate_index [] i = i"
| "surrogate_index (c # r) i =
     (if sur_head (c # r) then i
      else surrogate_index r (if is_continuation c then i else i + 1))"

fun from_surrogate :: "string \<Rightarrow> string" where
  "from_surrogate [] = []"
| "from_surrogate (c # r) = (if sur_head (c # r) then c # r else from_surrogate r)"

function run_length :: "string \<Rightarrow> int" where
  "run_length x = (if sur_head x then 1 + run_length (drop 3 x) else 0)"
  by pat_completeness auto
termination
  by (relation "measure length") (auto simp: sur_head_def split: list.splits)

declare run_length.simps [simp del]

definition surrogate_code :: "string \<Rightarrow> int" where
  "surrogate_code x = (case x of
       a # b # c # r \<Rightarrow> 53248 + (of_char b - 128) * 64 + (of_char c - 128)
     | _ \<Rightarrow> 0)"

definition strict_message :: "string \<Rightarrow> string" where
  "strict_message x =
     (let i = surrogate_index x 0; s = from_surrogate x; n = run_length s
      in quoted ''utf-8'' @ '' codec can't encode '' @
         (if n = 1
          then ''character '' @ quoted ([CHR 0x5C, CHR ''u''] @ hex_byte (surrogate_code s div 256)
                                        @ hex_byte (surrogate_code s mod 256))
               @ '' in position '' @ str_of_int i
          else ''characters in position '' @ str_of_int i @ ''-'' @ str_of_int (i + n - 1))
         @ '': surrogates not allowed'')"

text \<open>\<open>x.encode()\<close>\<close>

definition encode :: "string \<Rightarrow> pyerr + string" where
  "encode x = (if has_surrogate x then Inl (UnicodeEncodeError (strict_message x)) else Inr x)"

text \<open>
  \<open>print(x)\<close>. The standard output is a UTF-8 stream, as the application's own messages
  need: a line without surrogates is written. What becomes of a line with surrogates
  is up to the stream's error handler, a parameter: \<open>None\<close> when it writes the line,
  the text of the \<open>UnicodeEncodeError\<close> when it raises one. \<open>strict_console\<close> is Python's
  default handler.
\<close>

definition py_print :: "(string \<Rightarrow> string option) \<Rightarrow> string \<Rightarrow> pyerr option" where
  "py_print console x =
     (if has_surrogate x
      then (case console x of None \<Rightarrow> None | Some m \<Rightarrow> Some (UnicodeEncodeError m))
      else None)"

definition strict_console :: "string \<Rightarrow> string option" where
  "strict_console x = Some (strict_message x)"

section \<open>\<open>services/blockchain_service.py\<close>\<close>

record blockchain_service =
  contract_address :: string
  rpc_url :: string

text \<open>
  \<open>store_product_hash\<close> encodes the f-string \<open>f'{product_id}{file_hash}'\<close>, hashes it
  and returns the digest behind \<open>0x\<close>; when the encoding raises, its \<open>except\<close> branch
  raises \<open>Exception\<close> with the text of the error. The two lines it prints after the hash
  hold only text that was just encoded, and hexadecimal digits, so they are written.
  It assigns to no attribute of the service and to no other store.
\<close>

definition store_product_hash :: "blockchain_service \<Rightarrow> string \<Rightarrow> string \<Rightarrow> pyerr + string" where
  "store_product_hash self product_id file_hash =
     (case encode (product_id @ file_hash) of
        Inl e \<Rightarrow> Inl (Exception (''Failed to store hash on blockchain: '' @ err_str e))
      | Inr bytes \<Rightarrow> Inr (''0x'' @ sha256_hexdigest bytes))"

text \<open>
  \<open>get_product_hash\<close> returns \<open>Optional[str]\<close>: the digest, or \<open>None\<close> from its
  \<open>except\<close> branch when the encoding raises.
\<close>

definition get_product_hash :: "blockchain_service \<Rightarrow> string \<Rightarrow> string option" where
  "get_product_hash self product_id =
     (case encode (''mock_file_content_'' @ product_id) of
        Inl e \<Rightarrow> None
      | Inr bytes \<Rightarrow> Some (sha256_hexdigest bytes))"

text \<open>
  A call of \<open>store_product_hash\<close> as a step on the service object, and the object after
  a sequence of such calls. The method assigns nothing, so the step returns the object
  it was given.
\<close>

definition store_call ::
  "blockchain_service \<Rightarrow> string \<times> string \<Rightarrow> blockchain_service \<times> (pyerr + string)" where
  "store_call self c = (self, store_product_hash self (fst c) (snd c))"

fun after_calls :: "blockchain_service \<Rightarrow> (string \<times> string) list \<Rightarrow> blockchain_service" where
  "after_calls self [] = self"
| "after_calls self (c # calls) = after_calls (fst (store_call self c)) calls"

section \<open>\<open>app.py\<close>: the verify route\<close>

record response =
  status :: nat
  body :: dict

text \<open>
  The JSON body of the request; its two fields are strings when present. The blob store
  (\<open>greenfield_service.download_file\<close>) is a parameter: it returns the bytes or raises.
  The route prints the product identifier before it looks it up; its other lines hold
  fixed text and hexadecimal digits.
\<close>

record verify_request =
  v_productId :: "string option"
  v_greenfieldUrl :: "string option"

definition error_response :: "nat \<Rightarrow> string \<Rightarrow> response" where
  "error_response code msg =
     \<lparr>status = code, body = [(''success'', JBool False), (''error'', JStr msg)]\<rparr>"

definition current_hash_of ::
  "(string \<Rightarrow> pyerr + string) \<Rightarrow> string option \<Rightarrow> string \<Rightarrow> pyerr + string" where
  "current_hash_of download_file greenfield_url stored_hash =
     (case greenfield_url of
        None \<Rightarrow> Inr stored_hash
      | Some url \<Rightarrow>
          if url = [] then Inr stored_hash
          else (case download_file url of
                  Inl e \<Rightarrow> Inl e
                | Inr file_data \<Rightarrow> Inr (sha256_hexdigest file_data)))"

definition not_on_chain :: "string \<Rightarrow> response" where
  "not_on_chain product_id =
     \<lparr>status = 200,
      body = [(''success'', JBool True), (''isVerified'', JBool False),
              (''error'', JStr ''Product not found on blockchain''),
              (''productId'', JStr product_id)]\<rparr>"

definition verdict :: "string \<Rightarrow> string \<Rightarrow> string \<Rightarrow> response" where
  "verdict product_id stored_hash current_hash =
     (let is_verified = (stored_hash = current_hash)
      in \<lparr>status = 200,
          body = [(''success'', JBool True), (''isVerified'', JBool is_verified),
                  (''productId'', JStr product_id),
                  (''storedHash'', JStr stored_hash),
                  (''currentHash'', JStr current_hash),
                  (''message'', JStr (if is_verified then ''Product is authentic''
                                     else ''Product has been tampered with''))]\<rparr>)"

definition verify_product ::
  "(string \<Rightarrow> string option) \<Rightarrow> blockchain_service \<Rightarrow> (string \<Rightarrow> pyerr + string)
     \<Rightarrow> verify_request \<Rightarrow> response" where
  "verify_product console bs download_file req =
     (case v_productId req of
        None \<Rightarrow> error_response 400 ''Product ID is required''
      | Some product_id \<Rightarrow>
          if product_id = [] then error_response 400 ''Product ID is required''
          else (case py_print console (''Verifying product: '' @ product_id) of
                  Some e \<Rightarrow> error_response 500 (err_str e)
                | None \<Rightarrow>
                   (case get_product_hash bs product_id of
                      None \<Rightarrow> not_on_chain product_id
                    | Some stored_hash \<Rightarrow>
                        if stored_hash = [] then not_on_chain product_id
                        else (case current_hash_of download_file (v_greenfieldUrl req)
                                     stored_hash of
                                Inl e \<Rightarrow> error_response 500 (err_str e)
                              | Inr current_hash \<Rightarrow>
                                  verdict product_id stored_hash current_hash))))"

text \<open>The service as \<open>__init__\<close> builds it when the environment sets nothing.\<close>

definition default_service :: blockchain_service where
  "default_service =
     \<lparr>contract_address = ''0x03D1DC1fC2DB1E831D511B74f5a0Cb34585770d8'',
      rpc_url = ''https://bsc-dataseed.binance.org/''\<rparr>"

section \<open>\<open>services/database_service.py\<close>\<close>

text \<open>
  The three JSON documents of the service, with the shape \<open>_initialize_files\<close> gives them:
  \<open>batches.json\<close>, \<open>scans.json\<close> and \<open>products.json\<close>. Every method loads the
  documents it needs, changes them and saves them; one call runs to its end before the next.
\<close>

record store =
  batches :: "dict list"
  lastBatchId :: int
  scans :: "dict list"
  lastScanId :: int
  products :: "dict list"
  products_metadata :: "dict list"
  lastProductId :: int

definition empty_store :: store where
  "empty_store = \<lparr>batches = [], lastBatchId = 0, scans = [], lastScanId = 0,
                   products = [], products_metadata = [], lastProductId = 0\<rparr>"

definition py_type_name :: "jval \<Rightarrow> string" where
  "py_type_name v = (case v of
       JNull \<Rightarrow> ''NoneType'' | JBool _ \<Rightarrow> ''bool'' | JInt _ \<Rightarrow> ''int''
     | JStr _ \<Rightarrow> ''str'' | JList _ \<Rightarrow> ''list'' | JObj _ \<Rightarrow> ''dict'')"

definition no_attribute :: "jval \<Rightarrow> string \<Rightarrow> pyerr" where
  "no_attribute v attr =
     AttributeError ([CHR 0x27] @ py_type_name v @ [CHR 0x27] @ '' object has no attribute ''
                     @ [CHR 0x27] @ attr @ [CHR 0x27])"

subsection \<open>\<open>store_batch\<close>\<close>

text \<open>The four readings of \<open>datetime.utcnow().isoformat()\<close> that \<open>store_batch\<close> takes.\<close>

record batch_clock =
  created_at :: string
  last_activity :: string
  uploaded_at :: string
  product_created_at :: string

definition batch_metadata :: "dict \<Rightarrow> string \<Rightarrow> dict" where
  "batch_metadata data t =
     [(''fileName'', py_get_default data ''fileName'' (JStr ''unknown'')),
      (''fileSize'', py_get_default data ''fileSize'' (JInt 0)),
      (''mimeType'', py_get_default data ''mimeType'' (JStr ''application/octet-stream'')),
      (''uploadedBy'', py_get_default data ''userId'' (JStr ''unknown'')),
      (''uploadedAt'', JStr t)]"

definition new_batch :: "string \<Rightarrow> dict \<Rightarrow> batch_clock \<Rightarrow> dict" where
  "new_batch batch_id data clk =
     dict_merge data
       [(''batchId'', JStr batch_id),
        (''createdAt'', JStr (created_at clk)),
        (''scans'', JList []),
        (''status'', JStr ''active''),
        (''lastActivity'', JStr (last_activity clk)),
        (''metadata'', JObj (batch_metadata data (uploaded_at clk)))]"

definition product_metadata :: "string \<Rightarrow> dict \<Rightarrow> batch_clock \<Rightarrow> dict" where
  "product_metadata batch_id data clk =
     [(''productId'', JStr batch_id),
      (''userId'', py_get data ''userId''),
      (''userEmail'', py_get data ''userEmail''),
      (''batchName'', py_get data ''batchName''),
      (''manufacturerName'', py_get data ''manufacturerName''),
      (''productType'', py_get data ''productType''),
      (''description'', py_get data ''description''),
      (''fileHash'', py_get data ''fileHash''),
      (''greenfieldUrl'', py_get data ''greenfieldUrl''),
      (''txHash'', py_get data ''txHash''),
      (''contractAddress'', py_get data ''contractAddress''),
      (''createdAt'', JStr (product_created_at clk)),
      (''metadata'', JObj (batch_metadata data (uploaded_at clk)))]"

text \<open>
  \<open>store_batch\<close> appends the batch and the product row and counts both. It looks at no
  existing row and has no failing branch.
\<close>

definition store_batch :: "store \<Rightarrow> string \<Rightarrow> dict \<Rightarrow> batch_clock \<Rightarrow> store \<times> dict" where
  "store_batch s batch_id data clk =
     (let batch = new_batch batch_id data clk
      in (s\<lparr>batches := batches s @ [batch],
            lastBatchId := lastBatchId s + 1,
            products := products s @ [product_metadata batch_id data clk],
            lastProductId := lastProductId s + 1\<rparr>,
          batch))"

subsection \<open>\<open>get_batch\<close> and \<open>record_scan\<close>\<close>

text \<open>
  The first batch whose \<open>batch['batchId']\<close> equals the identifier; a row without the key
  raises \<open>KeyError\<close>. Identifiers are compared as JSON values.
\<close>

fun find_batch :: "dict list \<Rightarrow> jval \<Rightarrow> pyerr + dict option" where
  "find_batch [] batch_id = Inr None"
| "find_batch (batch # rest) batch_id =
     (case py_index batch ''batchId'' of
        Inl e \<Rightarrow> Inl e
      | Inr v \<Rightarrow> if v = batch_id then Inr (Some batch) else find_batch rest batch_id)"

definition get_batch :: "store \<Rightarrow> jval \<Rightarrow> pyerr + dict option" where
  "get_batch s batch_id = find_batch (batches s) batch_id"

text \<open>The loop \<open>for i, b in enumerate(...)\<close> of \<open>record_scan\<close>: the first match is replaced.\<close>

fun replace_batch :: "dict list \<Rightarrow> jval \<Rightarrow> dict \<Rightarrow> pyerr + dict list" where
  "replace_batch [] batch_id batch = Inr []"
| "replace_batch (b # rest) batch_id batch =
     (case py_index b ''batchId'' of
        Inl e \<Rightarrow> Inl e
      | Inr v \<Rightarrow>
          if v = batch_id then Inr (batch # rest)
          else (case replace_batch rest batch_id batch of
                  Inl e \<Rightarrow> Inl e
                | Inr rest' \<Rightarrow> Inr (b # rest')))"

text \<open>
  The scan record: \<open>id\<close> and \<open>batchId\<close>, then the caller's \<open>scan_data\<close>, then \<open>timestamp\<close>
  and \<open>location\<close>, each later key overriding an earlier one.
\<close>

definition scan_record_of :: "int \<Rightarrow> jval \<Rightarrow> dict \<Rightarrow> string \<Rightarrow> dict" where
  "scan_record_of last_id batch_id scan_data t =
     dict_merge
       (dict_merge [(''id'', JStr (str_of_int (last_id + 1))), (''batchId'', batch_id)] scan_data)
       [(''timestamp'', JStr t),
        (''location'', py_get_default scan_data ''location'' (JStr ''Unknown''))]"

text \<open>
  \<open>record_scan\<close> with its two clock readings (the record's timestamp, the batch's
  \<open>lastActivity\<close>). \<open>Inr (s, None)\<close> is the \<open>return None\<close> of a batch that is not found.
  An exception leaves the documents as they were: every raise comes before the first save.
\<close>

definition record_scan ::
  "store \<Rightarrow> jval \<Rightarrow> dict \<Rightarrow> string \<Rightarrow> string \<Rightarrow> pyerr + store \<times> dict option" where
  "record_scan s batch_id scan_data t_scan t_activity =
     (case get_batch s batch_id of
        Inl e \<Rightarrow> Inl e
      | Inr None \<Rightarrow> Inr (s, None)
      | Inr (Some batch) \<Rightarrow>
          if batch = [] then Inr (s, None)
          else
            let scan_record = scan_record_of (lastScanId s) batch_id scan_data t_scan
            in (case py_index batch ''scans'' of
                  Inl e \<Rightarrow> Inl e
                | Inr (JList l) \<Rightarrow>
                    let batch' = dict_set ''lastActivity'' (JStr t_activity)
                                   (dict_set ''scans'' (JList (l @ [JObj scan_record])) batch)
                    in (case replace_batch (batches s) batch_id batch' of
                          Inl e \<Rightarrow> Inl e
                        | Inr bs \<Rightarrow>
                            Inr (s\<lparr>batches := bs,
                                   scans := scans s @ [scan_record],
                                   lastScanId := lastScanId s + 1\<rparr>,
                                 Some scan_record))
                | Inr v \<Rightarrow> Inl (no_attribute v ''append'')))"

text \<open>The scan list of a batch, as a reader of \<open>get_batch(batch_id)['scans']\<close> sees it.\<close>

definition list_scans_by_batch :: "store \<Rightarrow> jval \<Rightarrow> jval list option" where
  "list_scans_by_batch s batch_id =
     (case get_batch s batch_id of
        Inr (Some batch) \<Rightarrow> (case map_of batch ''scans'' of Some (JList l) \<Rightarrow> Some l | _ \<Rightarrow> None)
      | _ \<Rightarrow> None)"

subsection \<open>\<open>_get_manufacturer_dashboard\<close>\<close>

definition py_or :: "jval \<Rightarrow> jval \<Rightarrow> jval" where
  "py_or a b = (if truthy a then a else b)"

text \<open>
  \<open>str(v) == str(user_id)\<close> for an integer \<open>user_id\<close>: the text of \<open>None\<close>, of a
  boolean, of a list and of a dictionary is never the decimal text of an integer.
\<close>

definition str_eq_id :: "jval \<Rightarrow> int \<Rightarrow> bool" where
  "str_eq_id v user_id = (case v of
       JInt i \<Rightarrow> str_of_int i = str_of_int user_id
     | JStr x \<Rightarrow> x = str_of_int user_id
     | _ \<Rightarrow> False)"

text \<open>
  A Python \<open>set\<close>, as the list of its distinct members in the order they came in.
  Python fixes no order for \<open>list(unique_suppliers)\<close>; only the members and their
  number are meant.
\<close>

definition hashable :: "jval \<Rightarrow> bool" where
  "hashable v = (case v of JList _ \<Rightarrow> False | JObj _ \<Rightarrow> False | _ \<Rightarrow> True)"

definition unhashable :: "jval \<Rightarrow> pyerr" where
  "unhashable v = TypeError (''unhashable type: '' @ quoted (py_type_name v))"

definition set_add :: "jval \<Rightarrow> jval list \<Rightarrow> pyerr + jval list" where
  "set_add v xs =
     (if \<not> hashable v then Inl (unhashable v)
      else Inr (if v \<in> set xs then xs else xs @ [v]))"

definition set_member :: "jval \<Rightarrow> jval list \<Rightarrow> pyerr + bool" where
  "set_member v xs = (if \<not> hashable v then Inl (unhashable v) else Inr (v \<in> set xs))"

definition add_supplier :: "dict \<Rightarrow> jval list \<Rightarrow> pyerr + jval list" where
  "add_supplier scan suppliers =
     (if truthy (py_get scan ''supplierName'')
      then set_add (py_get scan ''supplierName'') suppliers
      else Inr suppliers)"

text \<open>What \<open>for scan in v\<close> iterates over.\<close>

definition iter_values :: "jval \<Rightarrow> pyerr + jval list" where
  "iter_values v = (case v of
       JList l \<Rightarrow> Inr l
     | JStr x \<Rightarrow> Inr (map (\<lambda>c. JStr [c]) x)
     | JObj d \<Rightarrow> Inr (map (\<lambda>p. JStr (fst p)) d)
     | _ \<Rightarrow> Inl (TypeError (quoted (py_type_name v) @ '' object is not iterable'')))"

record dash =
  d_batches :: "dict list"
  d_ids :: "jval list"
  d_recent :: "dict list"
  d_total :: int
  d_suppliers :: "jval list"

text \<open>The scans stored inside one of the manufacturer's batches.\<close>

fun collect_legacy :: "dict \<Rightarrow> jval list \<Rightarrow> dash \<Rightarrow> pyerr + dash" where
  "collect_legacy batch [] acc = Inr acc"
| "collect_legacy batch (x # rest) acc =
     (case x of
        JObj scan \<Rightarrow>
          (case py_index batch ''batchId'' of
             Inl e \<Rightarrow> Inl e
           | Inr bid \<Rightarrow>
               (case add_supplier scan (d_suppliers acc) of
                  Inl e \<Rightarrow> Inl e
                | Inr suppliers \<Rightarrow>
                    collect_legacy batch rest
                      (acc\<lparr>d_recent := d_recent acc @
                              [dict_merge scan
                                 [(''batchId'', bid),
                                  (''productName'', py_or (py_get batch ''batchName'')
                                                          (py_get batch ''productName''))]],
                           d_total := d_total acc + 1,
                           d_suppliers := suppliers\<rparr>)))
      | _ \<Rightarrow> Inl (TypeError (quoted (py_type_name x) @ '' object is not a mapping'')))"

fun collect_batches :: "int \<Rightarrow> dict list \<Rightarrow> dash \<Rightarrow> pyerr + dash" where
  "collect_batches user_id [] acc = Inr acc"
| "collect_batches user_id (batch # rest) acc =
     (if str_eq_id (py_get batch ''userId'') user_id
      then (case set_add (py_get batch ''batchId'') (d_ids acc) of
              Inl e \<Rightarrow> Inl e
            | Inr ids \<Rightarrow>
                (case iter_values (py_get_default batch ''scans'' (JList [])) of
                   Inl e \<Rightarrow> Inl e
                 | Inr xs \<Rightarrow>
                     (case collect_legacy batch xs
                             (acc\<lparr>d_batches := d_batches acc @ [batch], d_ids := ids\<rparr>) of
                        Inl e \<Rightarrow> Inl e
                      | Inr acc' \<Rightarrow> collect_batches user_id rest acc')))
      else collect_batches user_id rest acc)"

fun collect_products :: "int \<Rightarrow> dict list \<Rightarrow> dash \<Rightarrow> pyerr + dash" where
  "collect_products user_id [] acc = Inr acc"
| "collect_products user_id (product # rest) acc =
     (if str_eq_id (py_get product ''userId'') user_id
      then (case set_add (py_get product ''productId'') (d_ids acc) of
              Inl e \<Rightarrow> Inl e
            | Inr ids \<Rightarrow> collect_products user_id rest (acc\<lparr>d_ids := ids\<rparr>))
      else collect_products user_id rest acc)"

fun first_with :: "string \<Rightarrow> jval \<Rightarrow> dict list \<Rightarrow> dict option" where
  "first_with k v [] = None"
| "first_with k v (row # rest) = (if py_get row k = v then Some row else first_with k v rest)"

definition info_found :: "dict option \<Rightarrow> bool" where
  "info_found info = (case info of None \<Rightarrow> False | Some d \<Rightarrow> d \<noteq> [])"

definition batch_info_for :: "dict list \<Rightarrow> dict list \<Rightarrow> dict \<Rightarrow> dict option" where
  "batch_info_for manufacturer_batches prods scan =
     (let info = first_with ''batchId'' (py_get scan ''batchId'') manufacturer_batches
      in if info_found info then info
         else (case first_with ''productId'' (py_get scan ''batchId'') prods of
                 None \<Rightarrow> info
               | Some product \<Rightarrow> Some product))"

definition enrich_scan :: "string \<Rightarrow> dict option \<Rightarrow> dict \<Rightarrow> dict" where
  "enrich_scan user_name info scan =
     dict_merge scan
       [(''productName'',
           (case info of
              None \<Rightarrow> JStr ''Unknown Product''
            | Some d \<Rightarrow>
                if d = [] then JStr ''Unknown Product''
                else py_or (py_get d ''batchName'')
                           (py_get_default d ''productName'' (JStr ''Unknown Product'')))),
        (''manufacturerName'',
           (case info of
              None \<Rightarrow> JStr user_name
            | Some d \<Rightarrow>
                if d = [] then JStr user_name
                else py_get_default d ''manufacturerName'' (JStr user_name)))]"

text \<open>The scans of \<open>scans.json\<close> whose batch belongs to the manufacturer.\<close>

fun collect_scans :: "string \<Rightarrow> dict list \<Rightarrow> dict list \<Rightarrow> dash \<Rightarrow> pyerr + dash" where
  "collect_scans user_name prods [] acc = Inr acc"
| "collect_scans user_name prods (scan # rest) acc =
     (case set_member (py_get scan ''batchId'') (d_ids acc) of
        Inl e \<Rightarrow> Inl e
      | Inr False \<Rightarrow> collect_scans user_name prods rest acc
      | Inr True \<Rightarrow>
          (case add_supplier scan (d_suppliers acc) of
             Inl e \<Rightarrow> Inl e
           | Inr suppliers \<Rightarrow>
               collect_scans user_name prods rest
                 (acc\<lparr>d_recent := d_recent acc @
                         [enrich_scan user_name (batch_info_for (d_batches acc) prods scan) scan],
                      d_total := d_total acc + 1,
                      d_suppliers := suppliers\<rparr>)))"

text \<open>
  \<open>recent_scans.sort(key=lambda x: x.get('timestamp', ''), reverse=True)\<close>: a stable sort,
  largest key first, equal keys in their old order. The records this service writes have
  string timestamps; integer keys sort as integers. A list of other or mixed keys is
  taken to raise \<open>TypeError\<close>, as comparing \<open>None\<close> or a string with an integer does.
\<close>

definition timestamp_key :: "dict \<Rightarrow> jval" where
  "timestamp_key x = py_get_default x ''timestamp'' (JStr [])"

definition is_JStr :: "jval \<Rightarrow> bool" where
  "is_JStr v = (case v of JStr _ \<Rightarrow> True | _ \<Rightarrow> False)"

definition is_JInt :: "jval \<Rightarrow> bool" where
  "is_JInt v = (case v of JInt _ \<Rightarrow> True | _ \<Rightarrow> False)"

definition str_of :: "jval \<Rightarrow> string" where
  "str_of v = (case v of JStr x \<Rightarrow> x | _ \<Rightarrow> [])"

definition int_of :: "jval \<Rightarrow> int" where
  "int_of v = (case v of JInt i \<Rightarrow> i | _ \<Rightarrow> 0)"

definition sort_newest_first :: "dict list \<Rightarrow> pyerr + dict list" where
  "sort_newest_first xs =
     (if length xs \<le> 1 then Inr xs
      else if list_all (\<lambda>x. is_JStr (timestamp_key x)) xs
      then Inr (rev (sort_key (\<lambda>x. str_of (timestamp_key x)) (rev xs)))
      else if list_all (\<lambda>x. is_JInt (timestamp_key x)) xs
      then Inr (rev (sort_key (\<lambda>x. int_of (timestamp_key x)) (rev xs)))
      else Inl (TypeError ''not supported between instances''))"

definition get_manufacturer_dashboard :: "store \<Rightarrow> int \<Rightarrow> string \<Rightarrow> pyerr + dict" where
  "get_manufacturer_dashboard s user_id user_name =
     (case collect_batches user_id (batches s)
             \<lparr>d_batches = [], d_ids = [], d_recent = [], d_total = 0, d_suppliers = []\<rparr> of
        Inl e \<Rightarrow> Inl e
      | Inr a1 \<Rightarrow>
          (case collect_products user_id (products s) a1 of
             Inl e \<Rightarrow> Inl e
           | Inr a2 \<Rightarrow>
               (case collect_scans user_name (products s) (scans s) a2 of
                  Inl e \<Rightarrow> Inl e
                | Inr a3 \<Rightarrow>
                    (case sort_newest_first (d_recent a3) of
                       Inl e \<Rightarrow> Inl e
                     | Inr recent \<Rightarrow>
                         Inr [(''userId'', JInt user_id),
                              (''userName'', JStr user_name),
                              (''role'', JStr ''manufacturer''),
                              (''totalBatches'', JInt (int (length (d_batches a3)))),
                              (''totalScans'', JInt (d_total a3)),
                              (''totalSuppliers'', JInt (int (length (d_suppliers a3)))),
                              (''batches'', JList (map JObj (d_batches a3))),
                              (''recentScans'', JList (map JObj (take 10 recent))),
                              (''supplierList'', JList (d_suppliers a3)),
                              (''allScans'', JList (map JObj recent))]))))"

subsection \<open>\<open>search_products\<close>\<close>

text \<open>
  \<open>str.lower()\<close> is Python's, with the case tables of Unicode: a parameter \<open>lower\<close> of
  the functions that call it.
\<close>

text \<open>\<open>needle in hay\<close> for two strings.\<close>

fun starts_with :: "string \<Rightarrow> string \<Rightarrow> bool" where
  "starts_with hay [] = True"
| "starts_with [] (n # ns) = False"
| "starts_with (h # hs) (n # ns) = (h = n \<and> starts_with hs ns)"

fun str_contains :: "string \<Rightarrow> string \<Rightarrow> bool" where
  "str_contains [] needle = (needle = [])"
| "str_contains (h # hs) needle = (starts_with (h # hs) needle \<or> str_contains hs needle)"

definition lower_of :: "(string \<Rightarrow> string) \<Rightarrow> jval \<Rightarrow> pyerr + string" where
  "lower_of lower v =
     (case v of JStr x \<Rightarrow> Inr (lower x) | _ \<Rightarrow> Inl (no_attribute v ''lower''))"

text \<open>\<open>search_term in product.get('productId', '').lower()\<close>\<close>

definition match_id :: "(string \<Rightarrow> string) \<Rightarrow> string \<Rightarrow> dict \<Rightarrow> pyerr + bool" where
  "match_id lower search_term product =
     (case lower_of lower (py_get_default product ''productId'' (JStr [])) of
        Inl e \<Rightarrow> Inl e
      | Inr x \<Rightarrow> Inr (str_contains x search_term))"

text \<open>\<open>product.get(k) and search_term in product[k].lower()\<close>\<close>

definition match_field ::
  "(string \<Rightarrow> string) \<Rightarrow> string \<Rightarrow> string \<Rightarrow> dict \<Rightarrow> pyerr + bool" where
  "match_field lower k search_term product =
     (if \<not> truthy (py_get product k) then Inr False
      else (case lower_of lower (py_get product k) of
              Inl e \<Rightarrow> Inl e
            | Inr x \<Rightarrow> Inr (str_contains x search_term)))"

definition or_else :: "pyerr + bool \<Rightarrow> pyerr + bool \<Rightarrow> pyerr + bool" where
  "or_else a b = (case a of Inl e \<Rightarrow> Inl e | Inr True \<Rightarrow> Inr True | Inr False \<Rightarrow> b)"

definition product_matches ::
  "(string \<Rightarrow> string) \<Rightarrow> string \<Rightarrow> string \<Rightarrow> dict \<Rightarrow> pyerr + bool" where
  "product_matches lower search_term criteria product =
     (if criteria = ''productId'' then match_id lower search_term product
      else if criteria = ''batchName'' then match_field lower ''batchName'' search_term product
      else if criteria = ''manufacturer''
      then match_field lower ''manufacturerName'' search_term product
      else if criteria = ''productType''
      then match_field lower ''productType'' search_term product
      else or_else (match_id lower search_term product)
             (or_else (match_field lower ''batchName'' search_term product)
                (or_else (match_field lower ''manufacturerName'' search_term product)
                         (match_field lower ''productType'' search_term product))))"

fun search_loop ::
  "(string \<Rightarrow> string) \<Rightarrow> string \<Rightarrow> string \<Rightarrow> dict list \<Rightarrow> pyerr + dict list" where
  "search_loop lower search_term criteria [] = Inr []"
| "search_loop lower search_term criteria (product # rest) =
     (case product_matches lower search_term criteria product of
        Inl e \<Rightarrow> Inl e
      | Inr m \<Rightarrow>
          (case search_loop lower search_term criteria rest of
             Inl e \<Rightarrow> Inl e
           | Inr results \<Rightarrow> Inr (if m then product # results else results)))"

definition search_products ::
  "(string \<Rightarrow> string) \<Rightarrow> store \<Rightarrow> string \<Rightarrow> string \<Rightarrow> pyerr + dict list" where
  "search_products lower s query criteria =
     search_loop lower (lower query) criteria (products s)"

section \<open>\<open>app.py\<close>: the scan, search and upload routes\<close>

subsection \<open>\<open>scan_product\<close>\<close>

text \<open>
  The JSON body of a scan request, and what the route reads from the HTTP request and the
  token. \<open>json.loads\<close> is a parameter; \<open>None\<close> is its \<open>JSONDecodeError\<close>.
\<close>

record scan_request =
  rq_qrData :: jval
  rq_supplierName :: "string option"
  rq_supplierLocation :: "string option"

record scan_env =
  env_remote_addr :: jval
  env_user_agent :: jval
  env_identity :: jval

definition or_str :: "string option \<Rightarrow> string \<Rightarrow> string" where
  "or_str x dflt = (case x of None \<Rightarrow> dflt | Some v \<Rightarrow> if v = [] then dflt else v)"

definition scan_data_of :: "string \<Rightarrow> string option \<Rightarrow> scan_env \<Rightarrow> dict" where
  "scan_data_of supplier_name supplier_location env =
     [(''supplierName'', JStr supplier_name),
      (''supplierLocation'', JStr (or_str supplier_location ''Unknown'')),
      (''scanType'', JStr ''QR_SCAN''),
      (''ipAddress'', env_remote_addr env),
      (''userAgent'', env_user_agent env),
      (''userId'', (case env_identity env of JObj d \<Rightarrow> py_get d ''id'' | _ \<Rightarrow> JNull)),
      (''scannerUsername'',
         (case env_identity env of JObj d \<Rightarrow> py_get d ''username'' | v \<Rightarrow> v))]"

definition scan_reply :: "jval \<Rightarrow> dict \<Rightarrow> string \<Rightarrow> dict option \<Rightarrow> response" where
  "scan_reply batch_id batch supplier_name scan_record =
     (case scan_record of
        None \<Rightarrow> error_response 500 (quoted ''NoneType'' @ '' object is not subscriptable'')
      | Some r \<Rightarrow>
          (case py_index r ''id'' of
             Inl e \<Rightarrow> error_response 500 (err_str e)
           | Inr scan_id \<Rightarrow>
               (case py_index r ''timestamp'' of
                  Inl e \<Rightarrow> error_response 500 (err_str e)
                | Inr ts \<Rightarrow>
                    (case py_index r ''supplierName'' of
                       Inl e \<Rightarrow> error_response 500 (err_str e)
                     | Inr sn \<Rightarrow>
                         \<lparr>status = 200,
                          body =
                            [(''success'', JBool True),
                             (''batchInfo'', JObj
                                [(''batchId'', batch_id),
                                 (''batchName'', py_get batch ''batchName''),
                                 (''manufacturerName'', py_get batch ''manufacturerName''),
                                 (''productType'', py_get batch ''productType''),
                                 (''description'', py_get batch ''description''),
                                 (''documentUrl'', py_get batch ''documentUrl''),
                                 (''createdAt'', py_get batch ''createdAt''),
                                 (''contractAddress'', py_get batch ''contractAddress''),
                                 (''txHash'', py_get batch ''txHash'')]),
                             (''scanRecord'', JObj
                                [(''scanId'', scan_id), (''timestamp'', ts),
                                 (''supplierName'', sn)]),
                             (''message'', JStr (''Welcome '' @ supplier_name
                                                 @ ''! Scan recorded successfully.''))]\<rparr>))))"

definition scan_product ::
  "(string \<Rightarrow> jval option) \<Rightarrow> store \<Rightarrow> scan_env \<Rightarrow> scan_request \<Rightarrow> string \<Rightarrow> string
     \<Rightarrow> store \<times> response" where
  "scan_product json_loads s env req t_scan t_activity =
     (if \<not> truthy (rq_qrData req) \<or> \<not> truthy (opt_str (rq_supplierName req))
      then (s, error_response 400 ''QR data and supplier name are required'')
      else
        (case (case rq_qrData req of JStr txt \<Rightarrow> json_loads txt | v \<Rightarrow> Some v) of
           None \<Rightarrow> (s, error_response 400 ''Invalid QR code format'')
         | Some (JObj parsed_qr) \<Rightarrow>
             (let batch_id = py_get parsed_qr ''productId'';
                  supplier_name = or_str (rq_supplierName req) []
              in case get_batch s batch_id of
                   Inl e \<Rightarrow> (s, error_response 500 (err_str e))
                 | Inr None \<Rightarrow> (s, error_response 404 ''Batch not found'')
                 | Inr (Some batch) \<Rightarrow>
                     if batch = [] then (s, error_response 404 ''Batch not found'')
                     else (case record_scan s batch_id
                                  (scan_data_of supplier_name (rq_supplierLocation req) env)
                                  t_scan t_activity of
                             Inl e \<Rightarrow> (s, error_response 500 (err_str e))
                           | Inr (s', scan_record) \<Rightarrow>
                               (s', scan_reply batch_id batch supplier_name scan_record)))
         | Some v \<Rightarrow> (s, error_response 500 (err_str (no_attribute v ''get'')))))"

subsection \<open>\<open>search_products\<close> (the route)\<close>

definition search_products_route ::
  "(string \<Rightarrow> string) \<Rightarrow> store \<Rightarrow> string option \<Rightarrow> string option \<Rightarrow> response" where
  "search_products_route lower s q criteria_arg =
     (let criteria = (case criteria_arg of None \<Rightarrow> ''all'' | Some c \<Rightarrow> c)
      in case q of
           None \<Rightarrow> error_response 400 ''Search query is required''
         | Some query \<Rightarrow>
             if query = [] then error_response 400 ''Search query is required''
             else (case search_products lower s query criteria of
                     Inl e \<Rightarrow> error_response 500 (err_str e)
                   | Inr results \<Rightarrow>
                       \<lparr>status = 200,
                        body = [(''success'', JBool True),
                                (''query'', JStr query),
                                (''criteria'', JStr criteria),
                                (''results'', JList (map JObj results)),
                                (''total'', JInt (int (length results)))]\<rparr>))"

subsection \<open>\<open>upload_file\<close>: from the form to \<open>store_batch\<close>\<close>

text \<open>
  The registration steps of the upload route, after the token and the file have been
  checked: hash the file, put it in the blob store, anchor the hash, store the batch.
  The blob store is a parameter (\<open>greenfield_service.upload_file\<close>: bytes, file name and
  content type to a URL, or an exception). The user association, the QR image and the
  JSON reply that follow belong to other services; the model stops at the stored batch.
  Of the lines the route prints on the way, two hold text of the request or of the blob
  store: the batch with its manufacturer (\<open>None\<close> when the form has none), and the URL.
\<close>

record upload_form =
  f_productId :: "string option"
  f_manufacturerName :: "string option"
  f_batchName :: "string option"
  f_productType :: "string option"
  f_description :: "string option"
  f_filename :: string
  f_file_data :: string
  f_content_type :: "string option"

record upload_env =
  e_user_id :: jval
  e_user_email :: jval
  e_contract_address :: string
  e_epoch :: int
  e_upload_timestamp :: string
  e_clock :: batch_clock

text \<open>\<open>x.split(c)[-1]\<close> and \<open>x.replace(a, b)\<close> for single characters.\<close>

definition last_segment :: "char \<Rightarrow> string \<Rightarrow> string" where
  "last_segment c x = rev (takeWhile (\<lambda>y. y \<noteq> c) (rev x))"

definition replace_char :: "char \<Rightarrow> char \<Rightarrow> string \<Rightarrow> string" where
  "replace_char a b x = map (\<lambda>y. if y = a then b else y) x"

definition batch_data_of ::
  "(string \<Rightarrow> string) \<Rightarrow> upload_form \<Rightarrow> upload_env \<Rightarrow> string \<Rightarrow> string \<Rightarrow> string
     \<Rightarrow> string \<Rightarrow> dict" where
  "batch_data_of lower form env product_id file_hash greenfield_url tx_hash =
     [(''manufacturerId'',
         JStr (case f_manufacturerName form of
                 None \<Rightarrow> ''unknown''
               | Some m \<Rightarrow> if m = [] then ''unknown''
                           else replace_char CHR '' '' CHR ''_'' (lower m))),
      (''manufacturerName'', JStr (or_str (f_manufacturerName form) ''Unknown Manufacturer'')),
      (''batchName'', JStr (or_str (f_batchName form) product_id)),
      (''productType'', JStr (or_str (f_productType form) ''Unknown'')),
      (''description'', JStr (or_str (f_description form) [])),
      (''fileHash'', JStr file_hash),
      (''greenfieldUrl'', JStr greenfield_url),
      (''txHash'', JStr tx_hash),
      (''contractAddress'', JStr (e_contract_address env)),
      (''documentUrl'', JStr greenfield_url),
      (''userId'', e_user_id env),
      (''userEmail'', e_user_email env),
      (''fileName'', JStr (f_filename form)),
      (''fileSize'', JInt (int (length (f_file_data form)))),
      (''mimeType'', opt_str (f_content_type form)),
      (''uploadTimestamp'', JStr (e_upload_timestamp env))]"

definition register_batch ::
  "(string \<Rightarrow> string) \<Rightarrow> (string \<Rightarrow> string option) \<Rightarrow> blockchain_service
     \<Rightarrow> (string \<Rightarrow> string \<Rightarrow> string \<Rightarrow> pyerr + string) \<Rightarrow> store
     \<Rightarrow> upload_form \<Rightarrow> upload_env \<Rightarrow> response + store \<times> dict" where
  "register_batch lower console bs upload s form env =
     (case f_productId form of
        None \<Rightarrow> Inl (error_response 400 ''Product ID is required'')
      | Some product_id \<Rightarrow>
          if product_id = [] then Inl (error_response 400 ''Product ID is required'')
          else
            (case py_print console
                    (''Processing upload for batch: '' @ product_id @ '' by ''
                       @ (case f_manufacturerName form of None \<Rightarrow> ''None'' | Some m \<Rightarrow> m)) of
               Some e \<Rightarrow> Inl (error_response 500 (err_str e))
             | None \<Rightarrow>
                 let file_hash = sha256_hexdigest (f_file_data form)
                 in (case upload (f_file_data form)
                                 (product_id @ ''-'' @ str_of_int (e_epoch env) @ ''.''
                                    @ last_segment CHR ''.'' (f_filename form))
                                 (or_str (f_content_type form) ''application/octet-stream'') of
                       Inl e \<Rightarrow> Inl (error_response 500 (err_str e))
                     | Inr greenfield_url \<Rightarrow>
                         (case py_print console
                                 (''File uploaded to Greenfield DCellar: '' @ greenfield_url) of
                            Some e \<Rightarrow> Inl (error_response 500 (err_str e))
                          | None \<Rightarrow>
                              (case store_product_hash bs product_id file_hash of
                                 Inl e \<Rightarrow> Inl (error_response 500 (err_str e))
                               | Inr tx_hash \<Rightarrow>
                                   Inr (store_batch s product_id
                                          (batch_data_of lower form env product_id file_hash
                                             greenfield_url tx_hash)
                                          (e_clock env)))))))"

section \<open>Scenarios\<close>

text \<open>
  Concrete inputs for the statements below: the registration of the five bytes \<open>hello\<close>
  as batch \<open>LOT-001\<close>, and a manufacturer with two batches and four scans.
\<close>

text \<open>
  \<open>str.lower()\<close> on text made of ASCII characters and the Greek sigmas (capital
  \<open>CE A3\<close>, small \<open>CF 83\<close>, final \<open>CF 82\<close>), the texts of the scenarios: an ASCII
  capital becomes its small letter; a capital sigma becomes the final sigma when a cased
  letter comes before it and none after it, the characters \<open>' . : ^ `\<close> being skipped
  on both sides, and the small sigma otherwise. On other text it is not Python's
  function, and it is not used there.
\<close>

definition lower_char :: "char \<Rightarrow> char" where
  "lower_char c =
     (if CHR ''A'' \<le> c \<and> c \<le> CHR ''Z'' then char_of (of_char c + (32::nat)) else c)"

definition cased_ascii :: "char \<Rightarrow> bool" where
  "cased_ascii c =
     ((CHR ''A'' \<le> c \<and> c \<le> CHR ''Z'') \<or> (CHR ''a'' \<le> c \<and> c \<le> CHR ''z''))"

definition case_ignorable :: "char \<Rightarrow> bool" where
  "case_ignorable c = (c \<in> set [CHR 0x27, CHR ''.'', CHR '':'', CHR ''^'', CHR 0x60])"

definition sigma_head :: "string \<Rightarrow> bool" where
  "sigma_head x = (case x of
       a # b # r \<Rightarrow> (a = CHR 0xCE \<and> b = CHR 0xA3)
                    \<or> (a = CHR 0xCF \<and> (b = CHR 0x82 \<or> b = CHR 0x83))
     | _ \<Rightarrow> False)"

fun cased_ahead :: "string \<Rightarrow> bool" where
  "cased_ahead [] = False"
| "cased_ahead (c # r) =
     (if case_ignorable c then cased_ahead r else (cased_ascii c \<or> sigma_head (c # r)))"

fun lower_from :: "bool \<Rightarrow> string \<Rightarrow> string" where
  "lower_from prev [] = []"
| "lower_from prev [c] = [lower_char c]"
| "lower_from prev (a # b # r) =
     (if a = CHR 0xCE \<and> b = CHR 0xA3
      then (if prev \<and> \<not> cased_ahead r then [CHR 0xCF, CHR 0x82] else [CHR 0xCF, CHR 0x83])
           @ lower_from True r
      else if a = CHR 0xCF \<and> (b = CHR 0x82 \<or> b = CHR 0x83)
      then a # b # lower_from True r
      else lower_char a
           # lower_from (if case_ignorable a then prev else cased_ascii a) (b # r))"

definition lower_basic :: "string \<Rightarrow> string" where
  "lower_basic x = lower_from False x"


definition lone_surrogate :: string where
  "lone_surrogate = [CHR 0xED, CHR 0xA0, CHR 0x80]"

definition demo_clock :: batch_clock where
  "demo_clock = \<lparr>created_at = ''2024-01-01T10:00:00'', last_activity = ''2024-01-01T10:00:00'',
                  uploaded_at = ''2024-01-01T10:00:00'',
                  product_created_at = ''2024-01-01T10:00:01''\<rparr>"

definition lot_form :: upload_form where
  "lot_form = \<lparr>f_productId = Some ''LOT-001'', f_manufacturerName = Some ''Acme Pharma'',
                f_batchName = Some ''Lot one'', f_productType = Some ''Vaccine'',
                f_description = None, f_filename = ''cert.txt'', f_file_data = ''hello'',
                f_content_type = Some ''text/plain''\<rparr>"

definition lot_env :: upload_env where
  "lot_env = \<lparr>e_user_id = JInt 1, e_user_email = JStr ''maker@acme.test'',
               e_contract_address = ''0x0000000000000000000000000000000000000000'',
               e_epoch = 1700000000, e_upload_timestamp = ''2024-01-01T10:00:00'',
               e_clock = demo_clock\<rparr>"

definition blob_put :: "string \<Rightarrow> string \<Rightarrow> string \<Rightarrow> pyerr + string" where
  "blob_put file_data filename content_type = Inr (''gnfd://bnbhack1/'' @ filename)"

definition blob_get_hello :: "string \<Rightarrow> pyerr + string" where
  "blob_get_hello url = Inr ''hello''"

definition lot_registered :: "response + store \<times> dict" where
  "lot_registered =
     register_batch lower_basic strict_console default_service blob_put empty_store
       lot_form lot_env"

definition lot_store :: store where
  "lot_store = fst (projr lot_registered)"

definition lot_registered_again :: "response + store \<times> dict" where
  "lot_registered_again =
     register_batch lower_basic strict_console default_service blob_put lot_store
       lot_form lot_env"

definition lot_verify_request :: verify_request where
  "lot_verify_request =
     \<lparr>v_productId = Some ''LOT-001'',
      v_greenfieldUrl = Some ''gnfd://bnbhack1/LOT-001-1700000000.txt''\<rparr>"

definition lot_weak_request :: verify_request where
  "lot_weak_request = \<lparr>v_productId = Some ''LOT-001'', v_greenfieldUrl = None\<rparr>"




definition acme_data :: "string \<Rightarrow> dict" where
  "acme_data name =
     [(''userId'', JInt 1), (''batchName'', JStr name), (''manufacturerName'', JStr ''Acme'')]"

definition dock_env :: scan_env where
  "dock_env = \<lparr>env_remote_addr = JStr ''10.0.0.7'', env_user_agent = JNull,
                env_identity = JStr ''7''\<rparr>"

definition scan_by :: "store \<Rightarrow> string \<Rightarrow> string \<Rightarrow> string \<Rightarrow> store" where
  "scan_by s batch_id supplier t =
     (case record_scan s (JStr batch_id) (scan_data_of supplier None dock_env) t t of
        Inr (s', r) \<Rightarrow> s'
      | Inl e \<Rightarrow> s)"

definition two_batches :: store where
  "two_batches =
     fst (store_batch (fst (store_batch empty_store ''B1'' (acme_data ''Batch one'') demo_clock))
            ''B2'' (acme_data ''Batch two'') demo_clock)"

definition four_scans :: store where
  "four_scans =
     scan_by (scan_by (scan_by (scan_by two_batches
        ''B1'' ''S1'' ''2024-02-01T09:00:00'')
        ''B1'' ''S2'' ''2024-02-01T09:05:00'')
        ''B1'' ''S1'' ''2024-02-01T09:10:00'')
        ''B2'' ''S2'' ''2024-02-01T09:15:00''"

definition three_scans :: store where
  "three_scans =
     scan_by (scan_by (scan_by two_batches
        ''B1'' ''S1'' ''2024-02-01T09:00:00'')
        ''B1'' ''S2'' ''2024-02-01T09:05:00'')
        ''B2'' ''S2'' ''2024-02-01T09:15:00''"

definition first_scan :: "pyerr + store \<times> dict option" where
  "first_scan =
     record_scan two_batches (JStr ''B1'') (scan_data_of ''S1'' None dock_env)
       ''2024-02-01T09:00:00'' ''2024-02-01T09:00:00''"

text \<open>A scan whose caller sends a timestamp of its own.\<close>

definition stale_scan_data :: dict where
  "stale_scan_data =
     [(''supplierName'', JStr ''S1''), (''timestamp'', JStr ''1999-12-31T23:59:59'')]"

definition stale_scan :: "pyerr + store \<times> dict option" where
  "stale_scan =
     record_scan two_batches (JStr ''B1'') stale_scan_data
       ''2024-02-01T09:00:00'' ''2024-02-01T09:00:01''"

text \<open>Scan requests for a batch that does not exist, and with no supplier name.\<close>

definition no_json :: "string \<Rightarrow> jval option" where
  "no_json txt = None"

definition ghost_request :: scan_request where
  "ghost_request = \<lparr>rq_qrData = JObj [(''productId'', JStr ''GHOST'')],
                     rq_supplierName = Some ''S1'', rq_supplierLocation = None\<rparr>"

definition nameless_request :: scan_request where
  "nameless_request = \<lparr>rq_qrData = JObj [(''productId'', JStr ''B1'')],
                        rq_supplierName = Some [], rq_supplierLocation = None\<rparr>"

section \<open>What search matches\<close>



text \<open>
  The product rows \<open>store_batch\<close> writes for the upload route: \<open>productId\<close> is a string,
  and each of the three descriptive fields is a non-empty string or null.
\<close>

definition text_field :: "dict \<Rightarrow> string \<Rightarrow> bool" where
  "text_field p k = (case map_of p k of
       None \<Rightarrow> True | Some JNull \<Rightarrow> True | Some (JStr v) \<Rightarrow> v \<noteq> [] | _ \<Rightarrow> False)"

definition wf_product :: "dict \<Rightarrow> bool" where
  "wf_product p =
     ((case map_of p ''productId'' of Some (JStr v) \<Rightarrow> True | _ \<Rightarrow> False)
      \<and> text_field p ''batchName'' \<and> text_field p ''manufacturerName''
      \<and> text_field p ''productType'')"


section \<open>Facts about the hash\<close>

lemma length_be_bytes: "length (be_bytes n v) = n"
  by (induction n arbitrary: v) auto

lemma length_sha_round: "length s = 8 \<Longrightarrow> length (sha_round s kw) = 8"
proof -
  assume "length s = 8"
  then obtain a b c d e f g h where "s = [a, b, c, d, e, f, g, h]"
    by (auto simp: length_Suc_conv eval_nat_numeral)
  then show ?thesis
    by (cases kw) (simp add: Let_def)
qed

lemma length_foldl_sha_round: "length s = 8 \<Longrightarrow> length (foldl sha_round s kws) = 8"
  by (induction kws arbitrary: s) (auto simp: length_sha_round)

lemma length_compress: "length hs = 8 \<Longrightarrow> length (compress hs blk) = 8"
  by (simp add: compress_def length_foldl_sha_round)

lemma length_foldl_compress: "length hs = 8 \<Longrightarrow> length (foldl compress hs blks) = 8"
  by (induction blks arbitrary: hs) (auto simp: length_compress)

lemma length_sha256_words: "length (sha256_words m) = 8"
  by (simp add: sha256_words_def Let_def length_foldl_compress sha_H0_def)

lemma length_concat_const:
  "(\<And>x. x \<in> set xs \<Longrightarrow> length (f x) = k) \<Longrightarrow> length (concat (map f xs)) = k * length xs"
  by (induction xs) auto

lemma length_sha256_hexdigest: "length (sha256_hexdigest m) = 64"
proof -
  have byte: "length (hex_byte b) = 2" for b
    by (simp add: hex_byte_def)
  have word: "length (concat (map hex_byte (be_bytes 4 w))) = 8" for w
    using length_concat_const [of "be_bytes 4 w" hex_byte 2]
    by (simp add: byte length_be_bytes)
  show ?thesis
    unfolding sha256_hexdigest_def
    using length_concat_const
      [of "sha256_words (map of_char m)" "\<lambda>w. concat (map hex_byte (be_bytes 4 w))" 8]
    by (simp add: word length_sha256_words)
qed

lemma sha256_hexdigest_nonempty: "sha256_hexdigest m \<noteq> []"
  using length_sha256_hexdigest [of m] by auto

text \<open>Two digests, checked against \<open>hashlib\<close>.\<close>

lemma sha256_hello:
  "sha256_hexdigest ''hello'' =
     ''2cf24dba5fb0a30e26e83b2ac5b9e29e1b161e5c1fa7425e73043362938b9824''"
  by code_simp

lemma sha256_mock_LOT_001:
  "sha256_hexdigest ''mock_file_content_LOT-001'' =
     ''d291094bca4f8f4f6655f536f9bcb5debf3981935ae0c576142905c049f2d1bf''"
  by code_simp

section \<open>Facts about encoding\<close>

lemma has_surrogate_append_left: "has_surrogate a \<Longrightarrow> has_surrogate (a @ b)"
proof (induction a)
  case Nil
  then show ?case by simp
next
  case (Cons c r)
  then show ?case
    by (cases r) (auto simp: sur_head_def)
qed

lemma has_surrogate_append_right: "has_surrogate b \<Longrightarrow> has_surrogate (a @ b)"
  by (induction a) auto

lemma has_surrogate_mock:
  "has_surrogate (''mock_file_content_'' @ product_id) = has_surrogate product_id"
  by (cases product_id) (simp_all add: sur_head_def)

lemma has_surrogate_verifying:
  "has_surrogate (''Verifying product: '' @ product_id) = has_surrogate product_id"
  by (cases product_id) (simp_all add: sur_head_def)

lemma after_calls_same: "after_calls s history = s"
  by (induction history arbitrary: s) (simp_all add: store_call_def)

lemma store_product_hash_outcome:
  "store_product_hash s product_id file_hash
     = (if has_surrogate (product_id @ file_hash)
        then Inl (Exception (''Failed to store hash on blockchain: ''
                             @ strict_message (product_id @ file_hash)))
        else Inr (''0x'' @ sha256_hexdigest (product_id @ file_hash)))"
  by (simp add: store_product_hash_def encode_def err_str_def)

lemma get_product_hash_outcome:
  "get_product_hash s product_id
     = (if has_surrogate product_id then None
        else Some (sha256_hexdigest (''mock_file_content_'' @ product_id)))"
  using has_surrogate_mock [of product_id]
  by (simp add: get_product_hash_def encode_def del: has_surrogate.simps)

lemma get_product_hash_Some:
  "get_product_hash s product_id = Some h \<Longrightarrow>
   \<not> has_surrogate product_id \<and> h = sha256_hexdigest (''mock_file_content_'' @ product_id)
   \<and> h \<noteq> []"
  by (auto simp: get_product_hash_outcome sha256_hexdigest_nonempty split: if_splits)

lemma sha256_anchor_LOT_001:
  "sha256_hexdigest
     ''LOT-0012cf24dba5fb0a30e26e83b2ac5b9e29e1b161e5c1fa7425e73043362938b9824''
   = ''c20ebc0712ebcc204672d184e252f490ddc5ed2685b3cfc2aa6aed1887940466''"
  by code_simp

lemma no_surrogate_hello_hash:
  "\<not> has_surrogate ''2cf24dba5fb0a30e26e83b2ac5b9e29e1b161e5c1fa7425e73043362938b9824''"
  by (simp add: sur_head_def)

section \<open>The ledger client\<close>

text \<open>
  Claim C10 says that for every pair of a batch identifier and a content hash the anchor
  call returns the reference \<open>0x\<close> followed by the SHA-256 of their concatenation. For
  the identifier that is one lone surrogate, \<open>.encode()\<close> raises, and the call returns
  no reference: it raises \<open>Failed to store hash on blockchain: ...\<close>.
\<close>

theorem anchor_surrogate_counterexample:
  "isl (store_product_hash default_service lone_surrogate
          ''2cf24dba5fb0a30e26e83b2ac5b9e29e1b161e5c1fa7425e73043362938b9824'')"
  by (simp add: store_product_hash_outcome lone_surrogate_def sur_head_def)

text \<open>
  Claim C10, amended. The outcome of the anchor call depends on the identifier and the
  content hash alone: two calls with the same pair, on any two service objects and after
  any earlier calls on each, have the same outcome. When the concatenation of the pair
  can be encoded as UTF-8 the outcome is the reference \<open>0x\<close> followed by the SHA-256
  hex digest of the concatenation; when it cannot (it holds a surrogate) both calls raise
  the same exception.
\<close>

theorem anchor_outcome_deterministic:
  "store_product_hash (after_calls s1 calls1) product_id file_hash
     = store_product_hash (after_calls s2 calls2) product_id file_hash
   \<and> store_product_hash (after_calls s1 calls1) product_id file_hash
       = (if has_surrogate (product_id @ file_hash)
          then Inl (Exception (''Failed to store hash on blockchain: ''
                               @ strict_message (product_id @ file_hash)))
          else Inr (''0x'' @ sha256_hexdigest (product_id @ file_hash)))"
  by (simp add: after_calls_same store_product_hash_outcome)

theorem anchor_outcome_deterministic_witness:
  "store_product_hash
     (after_calls default_service
        [(''SIG-1'', ''2cf24dba5fb0a30e26e83b2ac5b9e29e1b161e5c1fa7425e73043362938b9824'')])
     ''LOT-001'' ''2cf24dba5fb0a30e26e83b2ac5b9e29e1b161e5c1fa7425e73043362938b9824''
   = Inr ''0xc20ebc0712ebcc204672d184e252f490ddc5ed2685b3cfc2aa6aed1887940466''"
  using anchor_outcome_deterministic
    [of default_service
        "[(''SIG-1'', ''2cf24dba5fb0a30e26e83b2ac5b9e29e1b161e5c1fa7425e73043362938b9824'')]"
        "''LOT-001''" "''2cf24dba5fb0a30e26e83b2ac5b9e29e1b161e5c1fa7425e73043362938b9824''"
        default_service "[]"]
  by (simp add: sha256_anchor_LOT_001 sur_head_def store_call_def)

text \<open>
  Claim C3 says that the lookup of an identifier that was never anchored returns no hash.
  After \<open>LOT-001\<close> alone is anchored, the lookup of \<open>NEVER-ANCHORED\<close> returns a hash.
\<close>

theorem lookup_unknown_counterexample:
  "get_product_hash
     (after_calls default_service
        [(''LOT-001'', ''2cf24dba5fb0a30e26e83b2ac5b9e29e1b161e5c1fa7425e73043362938b9824'')])
     ''NEVER-ANCHORED''
     = Some (sha256_hexdigest ''mock_file_content_NEVER-ANCHORED'')"
  by (simp add: after_calls_same get_product_hash_outcome sur_head_def)

text \<open>
  Claim C3, amended. For every identifier that was never anchored, the lookup returns the
  SHA-256 hex digest of \<open>mock_file_content_\<close> followed by the identifier whenever the
  identifier can be encoded as UTF-8, and returns no hash only when it cannot (it holds
  a surrogate).
\<close>

theorem lookup_unanchored_mock_hash:
  assumes "product_id \<notin> fst ` set calls"
  shows "get_product_hash (after_calls s calls) product_id
           = (if has_surrogate product_id then None
              else Some (sha256_hexdigest (''mock_file_content_'' @ product_id)))"
  by (simp add: after_calls_same get_product_hash_outcome)

theorem lookup_unanchored_mock_hash_witness:
  "get_product_hash
     (after_calls default_service
        [(''SIG-1'', ''2cf24dba5fb0a30e26e83b2ac5b9e29e1b161e5c1fa7425e73043362938b9824'')])
     ''LOT-001''
     = Some ''d291094bca4f8f4f6655f536f9bcb5debf3981935ae0c576142905c049f2d1bf''
   \<and> get_product_hash
       (after_calls default_service
          [(''SIG-1'', ''2cf24dba5fb0a30e26e83b2ac5b9e29e1b161e5c1fa7425e73043362938b9824'')])
       lone_surrogate = None"
  using lookup_unanchored_mock_hash
    [of "''LOT-001''"
        "[(''SIG-1'', ''2cf24dba5fb0a30e26e83b2ac5b9e29e1b161e5c1fa7425e73043362938b9824'')]"
        default_service]
    lookup_unanchored_mock_hash
    [of lone_surrogate
        "[(''SIG-1'', ''2cf24dba5fb0a30e26e83b2ac5b9e29e1b161e5c1fa7425e73043362938b9824'')]"
        default_service]
  by (simp add: sha256_mock_LOT_001 lone_surrogate_def sur_head_def store_call_def)

section \<open>Dictionaries and the batch list\<close>

lemma map_of_dict_set:
  "map_of (dict_set k v d) k' = (if k' = k then Some v else map_of d k')"
  by (induction d) auto

lemma new_batch_id: "map_of (new_batch batch_id data clk) ''batchId'' = Some (JStr batch_id)"
  by (simp add: new_batch_def dict_merge_def map_of_dict_set)

lemma new_batch_file_hash:
  "map_of (new_batch batch_id (batch_data_of lower form env product_id file_hash url tx) clk)
     ''fileHash'' = Some (JStr file_hash)"
  by (simp add: new_batch_def dict_merge_def map_of_dict_set batch_data_of_def)

lemma find_batch_id:
  "find_batch xs batch_id = Inr (Some b) \<Longrightarrow> map_of b ''batchId'' = Some batch_id"
  by (induction xs) (auto simp: py_index_def split: option.splits if_splits)

lemma find_batch_append:
  "find_batch xs batch_id = Inr (Some b) \<Longrightarrow> find_batch (xs @ ys) batch_id = Inr (Some b)"
  by (induction xs) (auto simp: py_index_def split: option.splits if_splits)

lemma replace_batch_found:
  "find_batch xs batch_id = Inr (Some b) \<Longrightarrow> map_of b' ''batchId'' = Some batch_id \<Longrightarrow>
   \<exists>ys. replace_batch xs batch_id b' = Inr ys \<and> find_batch ys batch_id = Inr (Some b')
        \<and> length ys = length xs"
  by (induction xs) (auto simp: py_index_def split: option.splits if_splits)

lemma replace_batch_other:
  "replace_batch xs batch_id b' = Inr ys \<Longrightarrow> map_of b' ''batchId'' = Some batch_id \<Longrightarrow>
   other \<noteq> batch_id \<Longrightarrow> find_batch ys other = find_batch xs other"
  by (induction xs arbitrary: ys)
     (auto simp: py_index_def split: option.splits if_splits sum.splits)

lemma scan_record_timestamp:
  "map_of (scan_record_of n batch_id scan_data t) ''timestamp'' = Some (JStr t)"
  by (simp add: scan_record_of_def dict_merge_def map_of_dict_set)

lemma record_scan_success:
  assumes "record_scan s batch_id scan_data t_scan t_activity = Inr (s', Some r)"
  shows "\<exists>batch l.
           get_batch s batch_id = Inr (Some batch)
         \<and> map_of batch ''scans'' = Some (JList l)
         \<and> r = scan_record_of (lastScanId s) batch_id scan_data t_scan
         \<and> get_batch s' batch_id
             = Inr (Some (dict_set ''lastActivity'' (JStr t_activity)
                            (dict_set ''scans'' (JList (l @ [JObj r])) batch)))
         \<and> scans s' = scans s @ [r]
         \<and> lastScanId s' = lastScanId s + 1
         \<and> products s' = products s
         \<and> length (batches s') = length (batches s)
         \<and> (\<forall>other. other \<noteq> batch_id \<longrightarrow> get_batch s' other = get_batch s other)"
proof -
  from assms obtain batch where gb: "get_batch s batch_id = Inr (Some batch)"
    by (auto simp: record_scan_def split: sum.splits option.splits)
  from assms gb obtain l where sc: "map_of batch ''scans'' = Some (JList l)"
    by (auto simp: record_scan_def py_index_def Let_def
             split: sum.splits option.splits jval.splits if_splits)
  define r0 where "r0 = scan_record_of (lastScanId s) batch_id scan_data t_scan"
  define b' where "b' = dict_set ''lastActivity'' (JStr t_activity)
                          (dict_set ''scans'' (JList (l @ [JObj r0])) batch)"
  have id: "map_of b' ''batchId'' = Some batch_id"
    using find_batch_id [of "batches s" batch_id batch] gb
    by (simp add: b'_def map_of_dict_set get_batch_def)
  from replace_batch_found [OF _ id] gb obtain ys where
    ys: "replace_batch (batches s) batch_id b' = Inr ys"
        "find_batch ys batch_id = Inr (Some b')" "length ys = length (batches s)"
    by (auto simp: get_batch_def)
  from assms gb sc ys have "s' = s\<lparr>batches := ys, scans := scans s @ [r0],
                                    lastScanId := lastScanId s + 1\<rparr>" and "r = r0"
    by (auto simp: record_scan_def py_index_def Let_def r0_def b'_def
             split: sum.splits option.splits jval.splits if_splits)
  with gb sc ys replace_batch_other [OF ys(1) id] show ?thesis
    by (auto simp: get_batch_def r0_def b'_def)
qed

lemma record_scan_succeeds:
  assumes "get_batch s batch_id = Inr (Some batch)" and "map_of batch ''scans'' = Some (JList l)"
  shows "\<exists>s'. record_scan s batch_id scan_data t_scan t_activity
               = Inr (s', Some (scan_record_of (lastScanId s) batch_id scan_data t_scan))"
proof -
  define b' where "b' = dict_set ''lastActivity'' (JStr t_activity)
     (dict_set ''scans''
        (JList (l @ [JObj (scan_record_of (lastScanId s) batch_id scan_data t_scan)])) batch)"
  have id: "map_of b' ''batchId'' = Some batch_id"
    using find_batch_id [of "batches s" batch_id batch] assms(1)
    by (simp add: b'_def map_of_dict_set get_batch_def)
  from replace_batch_found [OF _ id] assms(1) obtain ys where
    "replace_batch (batches s) batch_id b' = Inr ys"
    by (auto simp: get_batch_def)
  moreover have "batch \<noteq> []" using assms(2) by auto
  ultimately show ?thesis
    using assms by (simp add: record_scan_def py_index_def Let_def b'_def)
qed


section \<open>Verification\<close>

lemma verify_product_encodable:
  assumes "product_id \<noteq> []" and "\<not> has_surrogate product_id"
  shows "verify_product console bs download \<lparr>v_productId = Some product_id, v_greenfieldUrl = url\<rparr>
         = (case current_hash_of download url
                   (sha256_hexdigest (''mock_file_content_'' @ product_id)) of
              Inl e \<Rightarrow> error_response 500 (err_str e)
            | Inr current_hash \<Rightarrow>
                verdict product_id (sha256_hexdigest (''mock_file_content_'' @ product_id))
                  current_hash)"
  using assms has_surrogate_verifying [of product_id] sha256_hexdigest_nonempty
  by (simp add: verify_product_def py_print_def get_product_hash_outcome
           del: has_surrogate.simps cong: sum.case_cong)

lemma no_surrogate_LOT_001: "\<not> has_surrogate ''LOT-001''"
  by (simp add: sur_head_def)

text \<open>
  Claim C5 says that a verification without a blob URI is labelled
  \<open>verifiedAgainstSource = false\<close>. The reply to such a request for \<open>LOT-001\<close> has
  no such key.
\<close>

theorem weak_path_label_counterexample:
  "status (verify_product strict_console default_service blob_get_hello lot_weak_request) = 200
   \<and> map_of (body (verify_product strict_console default_service blob_get_hello
                     lot_weak_request))
         ''verifiedAgainstSource'' = None
   \<and> py_get (body (verify_product strict_console default_service blob_get_hello
                     lot_weak_request))
         ''verifiedAgainstSource'' \<noteq> JBool False"
  using verify_product_encodable [OF _ no_surrogate_LOT_001, of strict_console default_service
      blob_get_hello None]
  by (simp add: lot_weak_request_def current_hash_of_def verdict_def py_get_def Let_def)

text \<open>
  Claim C5, amended. For every batch identifier whose ledger lookup yields a stored hash,
  verification with the blob URI omitted (absent or empty) replies with exactly the six
  fields \<open>success\<close>, \<open>isVerified = true\<close>, \<open>productId\<close>, \<open>storedHash\<close>,
  \<open>currentHash = storedHash\<close> and the message \<open>Product is authentic\<close>; the reply carries
  no label that tells it from a comparison against the fetched blob.
\<close>

theorem weak_path_unlabelled:
  assumes "get_product_hash bs product_id = Some stored_hash"
    and "product_id \<noteq> []"
    and "url = None \<or> url = Some []"
  shows "verify_product console bs download
           \<lparr>v_productId = Some product_id, v_greenfieldUrl = url\<rparr>
         = \<lparr>status = 200,
            body = [(''success'', JBool True), (''isVerified'', JBool True),
                    (''productId'', JStr product_id),
                    (''storedHash'', JStr stored_hash),
                    (''currentHash'', JStr stored_hash),
                    (''message'', JStr ''Product is authentic'')]\<rparr>"
proof -
  from get_product_hash_Some [OF assms(1)] have enc: "\<not> has_surrogate product_id"
    and h: "stored_hash = sha256_hexdigest (''mock_file_content_'' @ product_id)"
    by simp_all
  from assms(3) show ?thesis
    unfolding verify_product_encodable [OF assms(2) enc] h
    by (auto simp: current_hash_of_def verdict_def Let_def)
qed

theorem weak_path_unlabelled_witness:
  "verify_product strict_console default_service blob_get_hello lot_weak_request
     = \<lparr>status = 200,
        body = [(''success'', JBool True), (''isVerified'', JBool True),
                (''productId'', JStr ''LOT-001''),
                (''storedHash'',
                   JStr ''d291094bca4f8f4f6655f536f9bcb5debf3981935ae0c576142905c049f2d1bf''),
                (''currentHash'',
                   JStr ''d291094bca4f8f4f6655f536f9bcb5debf3981935ae0c576142905c049f2d1bf''),
                (''message'', JStr ''Product is authentic'')]\<rparr>"
  using weak_path_unlabelled
    [of default_service "''LOT-001''"
        "''d291094bca4f8f4f6655f536f9bcb5debf3981935ae0c576142905c049f2d1bf''"
        None strict_console blob_get_hello]
  by (simp add: get_product_hash_outcome sur_head_def sha256_mock_LOT_001 lot_weak_request_def)


text \<open>The registration of \<open>hello\<close> as \<open>LOT-001\<close> succeeds and stores this batch.\<close>

lemma lot_registered_eval:
  "lot_registered = Inr (store_batch empty_store ''LOT-001''
      (batch_data_of lower_basic lot_form lot_env ''LOT-001''
         ''2cf24dba5fb0a30e26e83b2ac5b9e29e1b161e5c1fa7425e73043362938b9824''
         ''gnfd://bnbhack1/LOT-001-1700000000.txt''
         ''0xc20ebc0712ebcc204672d184e252f490ddc5ed2685b3cfc2aa6aed1887940466'')
      demo_clock)"
  by (simp add: lot_registered_def register_batch_def lot_form_def lot_env_def blob_put_def
      py_print_def sur_head_def store_product_hash_outcome sha256_anchor_LOT_001
      sha256_hello str_of_int_def str_of_nat.simps digit_char_def last_segment_def or_str_def
      Let_def)

text \<open>
  Claim C1 says that after a batch is registered with artifact bytes \<open>A\<close>, verifying it
  against a blob identical to \<open>A\<close> gives \<open>isVerified = true\<close>. The bytes \<open>hello\<close> are
  registered as \<open>LOT-001\<close>; the blob store returns the same bytes for the stored URL;
  the verdict is \<open>isVerified = false\<close>.
\<close>

theorem round_trip_counterexample:
  "\<not> isl lot_registered
   \<and> py_get (snd (projr lot_registered)) ''batchId'' = JStr ''LOT-001''
   \<and> py_get (snd (projr lot_registered)) ''fileHash''
       = JStr ''2cf24dba5fb0a30e26e83b2ac5b9e29e1b161e5c1fa7425e73043362938b9824''
   \<and> py_get (snd (projr lot_registered)) ''greenfieldUrl''
       = JStr ''gnfd://bnbhack1/LOT-001-1700000000.txt''
   \<and> blob_get_hello ''gnfd://bnbhack1/LOT-001-1700000000.txt'' = Inr (f_file_data lot_form)
   \<and> py_get (body (verify_product strict_console default_service blob_get_hello
                     lot_verify_request))
         ''isVerified'' = JBool False"
  using verify_product_encodable [OF _ no_surrogate_LOT_001, of strict_console default_service
      blob_get_hello "Some ''gnfd://bnbhack1/LOT-001-1700000000.txt''"]
  by (simp add: lot_registered_eval store_batch_def new_batch_def dict_merge_def
      batch_data_of_def py_get_def Let_def blob_get_hello_def lot_form_def
      lot_verify_request_def current_hash_of_def
      verdict_def sha256_hello sha256_mock_LOT_001)

text \<open>
  Claim C1, amended. After a successful registration of artifact bytes \<open>A\<close> under a
  fresh batch identifier, the batch records the SHA-256 of \<open>A\<close> as its \<open>fileHash\<close>,
  and verification with that identifier and the blob URI of the batch (which is not
  empty) does not read it: \<open>storedHash\<close> is the SHA-256 of \<open>mock_file_content_\<close>
  followed by the identifier, \<open>currentHash\<close> is the SHA-256 of the fetched blob, and
  \<open>isVerified\<close> is true exactly when these two are equal, whether or not the blob is
  identical to \<open>A\<close>; when it is false the two hashes in the reply are distinct.
\<close>

theorem verify_after_registration:
  assumes "register_batch lower console bs upload s form env = Inr (s', batch)"
    and "f_productId form = Some product_id"
    and "get_batch s (JStr product_id) = Inr None"
    and "map_of batch ''greenfieldUrl'' = Some (JStr url)"
    and "url \<noteq> []"
    and "download url = Inr blob"
  shows "map_of batch ''fileHash'' = Some (JStr (sha256_hexdigest (f_file_data form)))
       \<and> verify_product console' bs' download
           \<lparr>v_productId = Some product_id, v_greenfieldUrl = Some url\<rparr>
         = \<lparr>status = 200,
            body = [(''success'', JBool True),
                    (''isVerified'',
                       JBool (sha256_hexdigest (''mock_file_content_'' @ product_id)
                              = sha256_hexdigest blob)),
                    (''productId'', JStr product_id),
                    (''storedHash'', JStr (sha256_hexdigest (''mock_file_content_'' @ product_id))),
                    (''currentHash'', JStr (sha256_hexdigest blob)),
                    (''message'',
                       JStr (if sha256_hexdigest (''mock_file_content_'' @ product_id)
                                = sha256_hexdigest blob
                             then ''Product is authentic''
                             else ''Product has been tampered with''))]\<rparr>"
proof -
  from assms(1,2) have ne: "product_id \<noteq> []"
    by (auto simp: register_batch_def split: if_splits)
  from assms(1,2) ne obtain tx where
    "store_product_hash bs product_id (sha256_hexdigest (f_file_data form)) = Inr tx"
    by (auto simp: register_batch_def Let_def split: option.splits sum.splits)
  then have "\<not> has_surrogate (product_id @ sha256_hexdigest (f_file_data form))"
    by (auto simp: store_product_hash_outcome split: if_splits)
  then have enc: "\<not> has_surrogate product_id"
    using has_surrogate_append_left by blast
  from assms(1,2) ne have "map_of batch ''fileHash''
      = Some (JStr (sha256_hexdigest (f_file_data form)))"
    by (auto simp: register_batch_def Let_def store_batch_def new_batch_file_hash
             split: option.splits sum.splits)
  moreover from assms(5,6) have "verify_product console' bs' download
           \<lparr>v_productId = Some product_id, v_greenfieldUrl = Some url\<rparr>
         = verdict product_id (sha256_hexdigest (''mock_file_content_'' @ product_id))
             (sha256_hexdigest blob)"
    unfolding verify_product_encodable [OF ne enc]
    by (simp add: current_hash_of_def)
  ultimately show ?thesis
    by (simp add: verdict_def Let_def)
qed

theorem verify_after_registration_witness:
  "map_of (snd (projr lot_registered)) ''fileHash''
     = Some (JStr ''2cf24dba5fb0a30e26e83b2ac5b9e29e1b161e5c1fa7425e73043362938b9824'')
   \<and> body (verify_product strict_console default_service blob_get_hello lot_verify_request)
     = [(''success'', JBool True), (''isVerified'', JBool False),
        (''productId'', JStr ''LOT-001''),
        (''storedHash'',
           JStr ''d291094bca4f8f4f6655f536f9bcb5debf3981935ae0c576142905c049f2d1bf''),
        (''currentHash'',
           JStr ''2cf24dba5fb0a30e26e83b2ac5b9e29e1b161e5c1fa7425e73043362938b9824''),
        (''message'', JStr ''Product has been tampered with'')]"
proof -
  have reg: "register_batch lower_basic strict_console default_service blob_put empty_store
               lot_form lot_env
             = Inr (fst (projr lot_registered), snd (projr lot_registered))"
    using lot_registered_eval by (simp add: lot_registered_def)
  have fresh: "get_batch empty_store (JStr ''LOT-001'') = Inr None"
    by (simp add: get_batch_def empty_store_def)
  have url: "map_of (snd (projr lot_registered)) ''greenfieldUrl''
               = Some (JStr ''gnfd://bnbhack1/LOT-001-1700000000.txt'')"
    by (simp add: lot_registered_eval store_batch_def new_batch_def dict_merge_def
        map_of_dict_set batch_data_of_def Let_def)
  from verify_after_registration [OF reg _ fresh url, of blob_get_hello "''hello''"
      strict_console default_service]
  show ?thesis
    by (simp add: lot_form_def blob_get_hello_def lot_verify_request_def sha256_hello
        sha256_mock_LOT_001)
qed

section \<open>The record store\<close>

lemma lot_registered_again_eval:
  "lot_registered_again = Inr (store_batch lot_store ''LOT-001''
      (batch_data_of lower_basic lot_form lot_env ''LOT-001''
         ''2cf24dba5fb0a30e26e83b2ac5b9e29e1b161e5c1fa7425e73043362938b9824''
         ''gnfd://bnbhack1/LOT-001-1700000000.txt''
         ''0xc20ebc0712ebcc204672d184e252f490ddc5ed2685b3cfc2aa6aed1887940466'')
      demo_clock)"
  by (simp add: lot_registered_again_def register_batch_def lot_form_def lot_env_def blob_put_def
      py_print_def sur_head_def store_product_hash_outcome sha256_anchor_LOT_001
      sha256_hello str_of_int_def str_of_nat.simps digit_char_def last_segment_def or_str_def
      Let_def)

lemma lot_store_batches:
  "batches lot_store = [new_batch ''LOT-001''
      (batch_data_of lower_basic lot_form lot_env ''LOT-001''
         ''2cf24dba5fb0a30e26e83b2ac5b9e29e1b161e5c1fa7425e73043362938b9824''
         ''gnfd://bnbhack1/LOT-001-1700000000.txt''
         ''0xc20ebc0712ebcc204672d184e252f490ddc5ed2685b3cfc2aa6aed1887940466'')
      demo_clock]"
  by (simp add: lot_store_def lot_registered_eval store_batch_def Let_def empty_store_def)

text \<open>
  Claim C2 says that a second registration under an existing batch identifier fails and
  leaves the stored state as it was. \<open>LOT-001\<close> is registered and then registered
  again: the second registration returns a batch, not an error, and the store holds two
  batch rows and two product rows with that identifier.
\<close>

theorem duplicate_registration_counterexample:
  "get_batch lot_store (JStr ''LOT-001'') = Inr (Some (snd (projr lot_registered)))
   \<and> \<not> isl lot_registered_again
   \<and> length (batches lot_store) = 1
   \<and> length (batches (fst (projr lot_registered_again))) = 2
   \<and> py_get (batches (fst (projr lot_registered_again)) ! 0) ''batchId'' = JStr ''LOT-001''
   \<and> py_get (batches (fst (projr lot_registered_again)) ! 1) ''batchId'' = JStr ''LOT-001''
   \<and> length (products (fst (projr lot_registered_again))) = 2"
  by (simp add: lot_registered_again_eval lot_registered_eval lot_store_batches get_batch_def
      py_index_def new_batch_id py_get_def store_batch_def Let_def lot_store_def
      empty_store_def)

text \<open>
  Claim C2, amended. \<open>store_batch\<close> under an identifier that already exists is not
  rejected: it returns the new batch, appends it after the existing rows together with a
  product row, and counts both; the scan log is untouched, and \<open>get_batch\<close> for that
  identifier still returns the record stored first, unchanged.
\<close>

theorem duplicate_store_batch_appends:
  assumes "get_batch s (JStr batch_id) = Inr (Some b)"
  shows "batches (fst (store_batch s batch_id data clk))
           = batches s @ [snd (store_batch s batch_id data clk)]
       \<and> map_of (snd (store_batch s batch_id data clk)) ''batchId'' = Some (JStr batch_id)
       \<and> products (fst (store_batch s batch_id data clk))
           = products s @ [product_metadata batch_id data clk]
       \<and> lastBatchId (fst (store_batch s batch_id data clk)) = lastBatchId s + 1
       \<and> lastProductId (fst (store_batch s batch_id data clk)) = lastProductId s + 1
       \<and> scans (fst (store_batch s batch_id data clk)) = scans s
       \<and> get_batch (fst (store_batch s batch_id data clk)) (JStr batch_id) = Inr (Some b)"
  using assms find_batch_append [of "batches s" "JStr batch_id" b]
  by (simp add: store_batch_def Let_def new_batch_id get_batch_def)

theorem duplicate_store_batch_appends_witness:
  "get_batch lot_store (JStr ''LOT-001'') = Inr (Some (snd (projr lot_registered)))
   \<and> get_batch (fst (store_batch lot_store ''LOT-001'' (acme_data ''Another lot'') demo_clock))
        (JStr ''LOT-001'') = Inr (Some (snd (projr lot_registered)))
   \<and> length (batches (fst (store_batch lot_store ''LOT-001'' (acme_data ''Another lot'')
        demo_clock))) = 2"
proof -
  have first: "get_batch lot_store (JStr ''LOT-001'') = Inr (Some (snd (projr lot_registered)))"
    by (simp add: lot_registered_eval lot_store_batches get_batch_def py_index_def new_batch_id
        store_batch_def Let_def)
  from duplicate_store_batch_appends [OF first, of "acme_data ''Another lot''" demo_clock] first
  show ?thesis by (simp add: lot_store_batches)
qed


section \<open>The scan recorder\<close>

lemma first_scan_eval:
  "first_scan = Inr (fst (projr first_scan), Some (the (snd (projr first_scan))))"
  by code_simp

lemma stale_scan_eval:
  "stale_scan = Inr (fst (projr stale_scan), Some (the (snd (projr stale_scan))))"
  by code_simp

lemma two_batches_no_scans: "list_scans_by_batch two_batches (JStr ''B1'') = Some []"
  by code_simp

text \<open>
  Claim C6. Every successful \<open>record_scan\<close> appends exactly one entry to the scan
  list of its batch: the list after the call is the list before it followed by the new
  record, so it is one longer and every earlier entry is the same value at the same
  place. The scan log of \<open>scans.json\<close> grows by the same record, and the scan list of
  every other batch identifier is as before.
\<close>

theorem scan_log_append_only:
  assumes "record_scan s batch_id scan_data t_scan t_activity = Inr (s', Some r)"
  shows "\<exists>l l'. list_scans_by_batch s batch_id = Some l
              \<and> list_scans_by_batch s' batch_id = Some l'
              \<and> l' = l @ [JObj r]
              \<and> length l' = length l + 1
              \<and> (\<forall>i < length l. l' ! i = l ! i)
              \<and> scans s' = scans s @ [r]
              \<and> (\<forall>other. other \<noteq> batch_id \<longrightarrow>
                     list_scans_by_batch s' other = list_scans_by_batch s other)"
proof -
  from record_scan_success [OF assms] obtain batch l where
    "get_batch s batch_id = Inr (Some batch)" "map_of batch ''scans'' = Some (JList l)"
    "get_batch s' batch_id
       = Inr (Some (dict_set ''lastActivity'' (JStr t_activity)
                      (dict_set ''scans'' (JList (l @ [JObj r])) batch)))"
    "scans s' = scans s @ [r]"
    "\<forall>other. other \<noteq> batch_id \<longrightarrow> get_batch s' other = get_batch s other"
    by blast
  then have "list_scans_by_batch s batch_id = Some l"
    and "list_scans_by_batch s' batch_id = Some (l @ [JObj r])"
    and "scans s' = scans s @ [r]"
    and "\<forall>other. other \<noteq> batch_id \<longrightarrow>
           list_scans_by_batch s' other = list_scans_by_batch s other"
    by (simp_all add: list_scans_by_batch_def map_of_dict_set)
  then show ?thesis by (simp add: nth_append)
qed

theorem scan_log_append_only_witness:
  "list_scans_by_batch two_batches (JStr ''B1'') = Some []
   \<and> list_scans_by_batch (fst (projr first_scan)) (JStr ''B1'')
       = Some [JObj (the (snd (projr first_scan)))]"
  using scan_log_append_only [OF first_scan_eval [unfolded first_scan_def]]
    two_batches_no_scans
  by (auto simp: first_scan_def)

text \<open>
  Claim C7. The \<open>timestamp\<close> of the record a successful \<open>record_scan\<close> creates is
  the clock reading the service took, whatever the caller's \<open>scan_data\<close> holds under
  that key; the record is the one appended to the scan log.
\<close>

theorem scan_timestamp_server_side:
  assumes "record_scan s batch_id scan_data t_scan t_activity = Inr (s', Some r)"
  shows "map_of r ''timestamp'' = Some (JStr t_scan) \<and> last (scans s') = r"
  using record_scan_success [OF assms] by (auto simp: scan_record_timestamp)

theorem scan_timestamp_server_side_witness:
  "map_of stale_scan_data ''timestamp'' = Some (JStr ''1999-12-31T23:59:59'')
   \<and> map_of (the (snd (projr stale_scan))) ''timestamp'' = Some (JStr ''2024-02-01T09:00:00'')"
  using scan_timestamp_server_side [OF stale_scan_eval [unfolded stale_scan_def]]
  by (simp add: stale_scan_def stale_scan_data_def)

text \<open>
  Claim C8. A scan of a batch identifier that resolves to no batch is refused and writes
  nothing: \<open>record_scan\<close> returns \<open>None\<close> with the documents as they were, and the
  route answers 404 \<open>Batch not found\<close>. A request whose supplier name is absent or
  empty is answered 400 before anything is read or written, and no scan is recorded.
\<close>

theorem scan_rejections:
  "(get_batch s batch_id = Inr None \<longrightarrow>
      record_scan s batch_id scan_data t_scan t_activity = Inr (s, None))
   \<and> (truthy (rq_qrData req)
        \<and> (case rq_qrData req of JStr txt \<Rightarrow> json_loads txt | v \<Rightarrow> Some v) = Some (JObj qr)
        \<and> rq_supplierName req = Some supplier \<and> supplier \<noteq> []
        \<and> get_batch s (py_get qr ''productId'') = Inr None \<longrightarrow>
      scan_product json_loads s env req t_scan t_activity
        = (s, error_response 404 ''Batch not found''))
   \<and> (rq_supplierName req = None \<or> rq_supplierName req = Some [] \<longrightarrow>
      scan_product json_loads s env req t_scan t_activity
        = (s, error_response 400 ''QR data and supplier name are required''))"
  by (auto simp: record_scan_def scan_product_def opt_str_def Let_def)

lemma ghost_not_found: "get_batch two_batches (JStr ''GHOST'') = Inr None"
  by code_simp

theorem scan_rejections_witness:
  "get_batch two_batches (JStr ''GHOST'') = Inr None
   \<and> record_scan two_batches (JStr ''GHOST'') stale_scan_data
        ''2024-02-01T09:00:00'' ''2024-02-01T09:00:00'' = Inr (two_batches, None)
   \<and> scan_product no_json two_batches dock_env ghost_request
        ''2024-02-01T09:00:00'' ''2024-02-01T09:00:00''
       = (two_batches, error_response 404 ''Batch not found'')
   \<and> scan_product no_json two_batches dock_env nameless_request
        ''2024-02-01T09:00:00'' ''2024-02-01T09:00:00''
       = (two_batches, error_response 400 ''QR data and supplier name are required'')"
  using ghost_not_found
    scan_rejections [of two_batches "JStr ''GHOST''" stale_scan_data
      "''2024-02-01T09:00:00''" "''2024-02-01T09:00:00''" ghost_request no_json
      "[(''productId'', JStr ''GHOST'')]" "''S1''" dock_env]
    scan_rejections [of two_batches "JStr ''GHOST''" stale_scan_data
      "''2024-02-01T09:00:00''" "''2024-02-01T09:00:00''" nameless_request no_json
      "[(''productId'', JStr ''GHOST'')]" "''S1''" dock_env]
  by (simp add: ghost_request_def nameless_request_def py_get_def)


section \<open>The manufacturer dashboard\<close>

text \<open>
  On records with string timestamps, as \<open>record_scan\<close> writes them, the sorted list is
  a rearrangement of the collected one with the timestamps descending.
\<close>

lemma sort_newest_first_descending:
  assumes "sort_newest_first xs = Inr ys"
    and "list_all (\<lambda>x. is_JStr (timestamp_key x)) xs"
  shows "sorted (rev (map (\<lambda>x. str_of (timestamp_key x)) ys))
       \<and> set ys = set xs \<and> length ys = length xs"
proof (cases "length xs \<le> 1")
  case True
  with assms(1) have "ys = xs" by (simp add: sort_newest_first_def)
  moreover from True have "sorted (rev (map (\<lambda>x. str_of (timestamp_key x)) xs))"
    by (cases xs) (auto simp: Suc_le_eq)
  ultimately show ?thesis by simp
next
  case False
  with assms have "ys = rev (sort_key (\<lambda>x. str_of (timestamp_key x)) (rev xs))"
    by (simp add: sort_newest_first_def)
  then show ?thesis by (simp add: rev_map)
qed

text \<open>
  Claim C4. Manufacturer 1 owns \<open>B1\<close> and \<open>B2\<close>. With the four scans \<open>S1\<close>,
  \<open>S2\<close>, \<open>S1\<close> of \<open>B1\<close> and \<open>S2\<close> of \<open>B2\<close> recorded, the dashboard reports
  \<open>totalScans = 8\<close>; with the three scans \<open>S1\<close>, \<open>S2\<close> of \<open>B1\<close> and \<open>S2\<close>
  of \<open>B2\<close> it reports 6. Each recorded scan is counted twice, once from the batch
  and once from the scan log. \<open>totalSuppliers\<close> is 2 in both.
\<close>

theorem dashboard_double_counts:
  "length (scans four_scans) = 4
   \<and> \<not> isl (get_manufacturer_dashboard four_scans 1 ''Acme'')
   \<and> py_get (projr (get_manufacturer_dashboard four_scans 1 ''Acme'')) ''totalScans'' = JInt 8
   \<and> py_get (projr (get_manufacturer_dashboard four_scans 1 ''Acme'')) ''totalSuppliers'' = JInt 2
   \<and> length (scans three_scans) = 3
   \<and> py_get (projr (get_manufacturer_dashboard three_scans 1 ''Acme'')) ''totalScans'' = JInt 6
   \<and> py_get (projr (get_manufacturer_dashboard three_scans 1 ''Acme'')) ''totalSuppliers'' = JInt 2"
  by code_simp

section \<open>Search\<close>

























lemma batch_data_wf:
  "product_id \<noteq> [] \<Longrightarrow>
   wf_product (product_metadata product_id
      (batch_data_of lower form env product_id file_hash url tx) clk)"
  by (simp add: wf_product_def text_field_def product_metadata_def batch_data_of_def py_get_def
      or_str_def split: option.splits)

lemma register_batch_keeps_wf:
  assumes "\<forall>p \<in> set (products s). wf_product p"
    and "register_batch lower console bs upload s form env = Inr (s', b)"
  shows "\<forall>p \<in> set (products s'). wf_product p"
  using assms
  by (auto simp: register_batch_def store_batch_def Let_def batch_data_wf
           split: option.splits if_splits sum.splits)

lemma record_scan_keeps_products:
  "record_scan s batch_id scan_data t_scan t_activity = Inr (s', r) \<Longrightarrow>
   products s' = products s"
  by (auto simp: record_scan_def Let_def split: sum.splits option.splits jval.splits if_splits)

end
